theory Spec2Isabelle
  imports Main "HOL-Library.Signed_Division"
begin

section \<open>Goal replay links: a model of the reddit package\<close>

text \<open>
  The package resolves, for a goal of a football match, a link to a replay clip posted on
  r/soccer. This theory embeds its orchestrator (\<open>Client\<close>), its rate limiter, its two
  fetchers and the token lifecycle of the OAuth fetcher, and proves properties of them.

  Conventions. A Go \<open>int\<close> is an \<open>int\<close> (no counter of this package comes near
  \<open>2^63\<close>). A \<open>time.Time\<close> is an \<open>int\<close>, the nanoseconds since the Unix epoch; a
  \<open>time.Duration\<close> is an \<open>int\<close> of nanoseconds. A Go string is a \<open>string\<close> (a list of
  bytes). A Go \<open>error\<close> is the text of its \<open>Error()\<close>; a \<open>nil\<close> error is \<open>None\<close>.
  Debug logging (\<open>debugLog\<close>) has no effect on any value below and is left out.
\<close>

subsection \<open>Time\<close>

definition time_Second :: int where
  "time_Second = 1000000000"

definition time_Minute :: int where
  "time_Minute = 60 * time_Second"

definition time_Hour :: int where
  "time_Hour = 60 * time_Minute"

definition maxDuration :: int where
  "maxDuration = 2 ^ 63 - 1"

definition minDuration :: int where
  "minDuration = - (2 ^ 63)"

text \<open>The zero \<open>time.Time\<close> (1 January of year 1, UTC), in nanoseconds before the Unix epoch.\<close>

definition zeroTime :: int where
  "zeroTime = - 62135596800 * time_Second"

text \<open>\<open>time.Since(t)\<close> read at clock value \<open>now\<close>: \<open>Time.Sub\<close> saturates at the ends
  of the \<open>Duration\<close> range.\<close>

definition time_Since :: "int \<Rightarrow> int \<Rightarrow> int" where
  "time_Since now t =
     (if now - t > maxDuration then maxDuration
      else if now - t < minDuration then minDuration
      else now - t)"

subsection \<open>Strings\<close>

fun hasPrefix :: "string \<Rightarrow> string \<Rightarrow> bool" where
  "hasPrefix s [] = True"
| "hasPrefix [] (p # ps) = False"
| "hasPrefix (c # cs) (p # ps) = (c = p \<and> hasPrefix cs ps)"

text \<open>\<open>strings.Contains(s, substr)\<close>.\<close>

fun Contains :: "string \<Rightarrow> string \<Rightarrow> bool" where
  "Contains [] sub = (sub = [])"
| "Contains (c # cs) sub = (hasPrefix (c # cs) sub \<or> Contains cs sub)"

text \<open>The verb \<open>%d\<close> of \<open>fmt\<close>: an integer in decimal.\<close>

fun nat_digits :: "nat \<Rightarrow> string" where
  "nat_digits n =
     (if n < 10 then [''0123456789'' ! n]
      else nat_digits (n div 10) @ [''0123456789'' ! (n mod 10)])"

declare nat_digits.simps [simp del]

definition itoa :: "int \<Rightarrow> string" where
  "itoa i = (if i < 0 then CHR ''-'' # nat_digits (nat (- i)) else nat_digits (nat i))"

subsection \<open>Data\<close>

record GoalInfo =
  MatchID :: int
  Minute :: int
  HomeTeam :: string
  AwayTeam :: string
  IsHomeTeam :: bool
  MatchTime :: int

record GoalLinkKey =
  key_MatchID :: int
  key_Minute :: int

record GoalLink =
  link_MatchID :: int
  link_Minute :: int
  link_URL :: string
  link_Title :: string
  link_PostURL :: string
  link_FetchedAt :: int

record SearchResult =
  URL :: string
  Title :: string
  PostURL :: string
  Flair :: string

subsection \<open>The goal link cache\<close>

text \<open>
  Modelled from the spec: \<open>GoalLinkCache\<close> with its \<open>Get\<close>, \<open>Set\<close>, \<open>SetNotFound\<close> and
  \<open>IsNotFound\<close>, which are not among the source files. The spec gives a store from
  \<open>GoalKey\<close> to a \<open>ResolutionOutcome\<close>, a tagged union of \<open>Found\<close> and \<open>NotFound\<close>, with
  exact-key lookup, set-positive and set-negative; a write may fail (the failure is
  reported to the caller and the store is left as it was). \<open>writable\<close> says whether
  writes succeed. \<open>Get\<close> returning \<open>nil\<close> is \<open>None\<close>; \<open>IsNotFound(link)\<close> is the case
  \<open>NotFound\<close> of the outcome.
\<close>

datatype ResolutionOutcome = Found GoalLink | NotFound

record GoalLinkCache =
  entries :: "GoalLinkKey \<rightharpoonup> ResolutionOutcome"
  writable :: bool

definition cache_Get :: "GoalLinkCache \<Rightarrow> GoalLinkKey \<Rightarrow> ResolutionOutcome option" where
  "cache_Get c k = entries c k"

definition cache_Set :: "GoalLinkCache \<Rightarrow> GoalLink \<Rightarrow> string option \<times> GoalLinkCache" where
  "cache_Set c l =
     (if writable c
      then (None, c\<lparr>entries := (entries c)
              (\<lparr>key_MatchID = link_MatchID l, key_Minute = link_Minute l\<rparr> \<mapsto> Found l)\<rparr>)
      else (Some ''cache write failed'', c))"

definition cache_SetNotFound :: "GoalLinkCache \<Rightarrow> int \<Rightarrow> int \<Rightarrow> string option \<times> GoalLinkCache" where
  "cache_SetNotFound c matchID minute =
     (if writable c
      then (None, c\<lparr>entries := (entries c)
              (\<lparr>key_MatchID = matchID, key_Minute = minute\<rparr> \<mapsto> NotFound)\<rparr>)
      else (Some ''cache write failed'', c))"

subsection \<open>The client\<close>

text \<open>
  What a fetcher talks to is the world: the clock and the network (and whatever state the
  fetcher keeps). A \<open>Fetcher\<close> is a \<open>Search(query, limit, matchTime)\<close> that returns, with
  results (\<open>Inr\<close>) or with an error (\<open>Inl\<close>), and may change the world.
\<close>

record 'n world =
  clock :: int
  net :: 'n

type_synonym 'n Fetcher =
  "string \<Rightarrow> int \<Rightarrow> int \<Rightarrow> 'n world \<Rightarrow> (string + SearchResult list) \<times> 'n world"

text \<open>The OAuth fetcher as the client sees it: its \<open>IsAvailable\<close> and its \<open>Search\<close>.\<close>

record 'n OAuthHandle =
  IsAvailable :: "'n world \<Rightarrow> bool"
  oauth_Search :: "'n Fetcher"

record 'n Client =
  oauthFetcher :: "'n OAuthHandle option"
  publicFetcher :: "'n Fetcher"

text \<open>
  The trace records what the client does to the outside: each \<open>Search\<close> it issues (on which
  fetcher, with which query and limit) and each \<open>time.Sleep\<close>.
\<close>

datatype channel = OAuth | Public

datatype event = Searched channel string int int | Slept int

record 'n state =
  world :: "'n world"
  cache :: GoalLinkCache
  trace :: "event list"

definition Search :: "channel \<Rightarrow> 'n Fetcher \<Rightarrow> string \<Rightarrow> int \<Rightarrow> int \<Rightarrow> 'n state
    \<Rightarrow> (string + SearchResult list) \<times> 'n state" where
  "Search ch fetcher query limit matchTime s =
     (let (r, w) = fetcher query limit matchTime (world s)
      in (r, s\<lparr>world := w, trace := trace s @ [Searched ch query limit matchTime]\<rparr>))"

text \<open>\<open>time.Sleep(d)\<close> returns at once when \<open>d \<le> 0\<close>; otherwise the clock moves on by \<open>d\<close>.\<close>

definition Sleep :: "int \<Rightarrow> 'n state \<Rightarrow> 'n state" where
  "Sleep d s =
     s\<lparr>world := (world s)\<lparr>clock := clock (world s) + max 0 d\<rparr>, trace := trace s @ [Slept d]\<rparr>"

text \<open>The loop of \<open>searchForGoalOnce\<close> that removes duplicates by URL, keeping the first.\<close>

fun uniqueByURL :: "(string \<Rightarrow> bool) \<Rightarrow> SearchResult list \<Rightarrow> SearchResult list" where
  "uniqueByURL seen [] = []"
| "uniqueByURL seen (r # rs) =
     (if \<not> seen (URL r) then r # uniqueByURL (seen(URL r := True)) rs
      else uniqueByURL seen rs)"

definition mkGoalLink :: "GoalInfo \<Rightarrow> SearchResult \<Rightarrow> int \<Rightarrow> GoalLink" where
  "mkGoalLink goal m now =
     \<lparr>link_MatchID = MatchID goal, link_Minute = Minute goal, link_URL = URL m,
      link_Title = Title m, link_PostURL = PostURL m, link_FetchedAt = now\<rparr>"

definition query1 :: "GoalInfo \<Rightarrow> string" where
  "query1 goal = HomeTeam goal @ '' '' @ AwayTeam goal @ '' '' @ itoa (Minute goal) @ [CHR 0x27]"

definition query2 :: "GoalInfo \<Rightarrow> string" where
  "query2 goal =
     (if IsHomeTeam goal then HomeTeam goal else AwayTeam goal)
       @ '' '' @ itoa (Minute goal) @ [CHR 0x27]"

text \<open>
  \<open>searchForGoalOnce\<close>. \<open>findBestMatch\<close> is not among the source files and is a parameter:
  any function from the candidates and the goal to one of them or none.
\<close>

definition searchForGoalOnce ::
  "(SearchResult list \<Rightarrow> GoalInfo \<Rightarrow> SearchResult option) \<Rightarrow> GoalInfo \<Rightarrow> channel \<Rightarrow> 'n Fetcher
     \<Rightarrow> 'n state \<Rightarrow> (GoalLink option \<times> string option) \<times> 'n state" where
  "searchForGoalOnce findBestMatch goal ch fetcher s =
     (let (r1, s1) = Search ch fetcher (query1 goal) 15 (MatchTime goal) s
      in case (case r1 of Inr results1 \<Rightarrow> findBestMatch results1 goal | Inl err \<Rightarrow> None) of
           Some m \<Rightarrow> ((Some (mkGoalLink goal m (clock (world s1))), None), s1)
         | None \<Rightarrow>
            (let allResults = (case r1 of Inr results1 \<Rightarrow> results1 | Inl err \<Rightarrow> []);
                 (r2, s2) = Search ch fetcher (query2 goal) 15 (MatchTime goal) s1;
                 allResults2 = (case r2 of Inr results2 \<Rightarrow> allResults @ results2
                                | Inl err \<Rightarrow> allResults);
                 uniqueResults = uniqueByURL (\<lambda>u. False) allResults2
             in case findBestMatch uniqueResults goal of
                  None \<Rightarrow> ((None, None), s2)
                | Some m \<Rightarrow> ((Some (mkGoalLink goal m (clock (world s2))), None), s2)))"

definition maxRetries :: int where
  "maxRetries = 3"

definition baseDelay :: int where
  "baseDelay = 30 * time_Second"

definition retryable :: "string \<Rightarrow> bool" where
  "retryable err =
     (Contains err ''CAPTCHA'' \<or> Contains err ''blocking requests'' \<or>
      Contains err ''rate limit'' \<or> Contains err ''HTML instead of JSON'')"

text \<open>The retry loop of \<open>searchForGoal\<close> on the public fetcher, from \<open>attempt\<close> on.\<close>

function publicAttempts ::
  "(SearchResult list \<Rightarrow> GoalInfo \<Rightarrow> SearchResult option) \<Rightarrow> 'n Client \<Rightarrow> GoalInfo \<Rightarrow> int
     \<Rightarrow> 'n state \<Rightarrow> (GoalLink option \<times> string option) \<times> 'n state" where
  "publicAttempts findBestMatch c goal attempt s =
     (if attempt < maxRetries then
        (let s0 = (if attempt > 0 then Sleep (attempt * baseDelay) s else s);
             ((result, err), s1) = searchForGoalOnce findBestMatch goal Public (publicFetcher c) s0
         in case err of
              None \<Rightarrow> ((result, None), s1)
            | Some e \<Rightarrow>
                if retryable e \<and> attempt < maxRetries - 1
                then publicAttempts findBestMatch c goal (attempt + 1) s1
                else ((None, Some e), s1))
      else ((None, None), s))"
  by pat_completeness auto
termination
  by (relation "measure (\<lambda>(f, c, goal, attempt, s). nat (maxRetries - attempt))")
     (auto simp: maxRetries_def)

declare publicAttempts.simps [simp del]

definition searchForGoal ::
  "(SearchResult list \<Rightarrow> GoalInfo \<Rightarrow> SearchResult option) \<Rightarrow> 'n Client \<Rightarrow> GoalInfo
     \<Rightarrow> 'n state \<Rightarrow> (GoalLink option \<times> string option) \<times> 'n state" where
  "searchForGoal findBestMatch c goal s =
     (case oauthFetcher c of
        Some oa \<Rightarrow>
          if IsAvailable oa (world s) then
            (let ((result, err), s1) = searchForGoalOnce findBestMatch goal OAuth (oauth_Search oa) s
             in case err of Some e \<Rightarrow> ((None, Some e), s1) | None \<Rightarrow> ((result, None), s1))
          else publicAttempts findBestMatch c goal 0 s
      | None \<Rightarrow> publicAttempts findBestMatch c goal 0 s)"

definition goalKey :: "GoalInfo \<Rightarrow> GoalLinkKey" where
  "goalKey goal = \<lparr>key_MatchID = MatchID goal, key_Minute = Minute goal\<rparr>"

definition GoalLink ::
  "(SearchResult list \<Rightarrow> GoalInfo \<Rightarrow> SearchResult option) \<Rightarrow> 'n Client \<Rightarrow> GoalInfo
     \<Rightarrow> 'n state \<Rightarrow> (GoalLink option \<times> string option) \<times> 'n state" where
  "GoalLink findBestMatch c goal s =
     (case cache_Get (cache s) (goalKey goal) of
        Some link \<Rightarrow>
          (case link of NotFound \<Rightarrow> ((None, None), s) | Found l \<Rightarrow> ((Some l, None), s))
      | None \<Rightarrow>
          (let ((link, err), s1) = searchForGoal findBestMatch c goal s
           in case err of
                Some e \<Rightarrow> ((None, Some e), s1)
              | None \<Rightarrow>
                  (case link of
                     Some l \<Rightarrow> ((link, None), s1\<lparr>cache := snd (cache_Set (cache s1) l)\<rparr>)
                   | None \<Rightarrow>
                       ((link, None),
                        s1\<lparr>cache := snd (cache_SetNotFound (cache s1) (MatchID goal) (Minute goal))\<rparr>))))"

subsection \<open>Resolving many goals\<close>

definition BatchSize :: nat where
  "BatchSize = 5"

definition BatchDelay :: int where
  "BatchDelay = 2 * time_Second"

text \<open>
  The first loop of \<open>GoalLinks\<close>: it skips a goal whose key was seen, takes a cached link
  into \<open>results\<close>, and appends a goal with no cache entry to \<open>uncachedGoals\<close>.
\<close>

fun collectGoals :: "GoalLinkCache \<Rightarrow> GoalInfo list \<Rightarrow> (GoalLinkKey \<Rightarrow> bool)
    \<Rightarrow> (GoalLinkKey \<rightharpoonup> GoalLink) \<Rightarrow> GoalInfo list
    \<Rightarrow> (GoalLinkKey \<rightharpoonup> GoalLink) \<times> GoalInfo list" where
  "collectGoals ca [] seen results uncachedGoals = (results, uncachedGoals)"
| "collectGoals ca (goal # goals) seen results uncachedGoals =
     (let key = goalKey goal
      in if seen key then collectGoals ca goals seen results uncachedGoals
         else
           (case cache_Get ca key of
              Some link \<Rightarrow>
                (case link of
                   Found l \<Rightarrow> collectGoals ca goals (seen(key := True)) (results(key \<mapsto> l)) uncachedGoals
                 | NotFound \<Rightarrow> collectGoals ca goals (seen(key := True)) results uncachedGoals)
            | None \<Rightarrow> collectGoals ca goals (seen(key := True)) results (uncachedGoals @ [goal])))"

text \<open>The inner loop: one batch, goal by goal.\<close>

fun resolveBatch ::
  "(SearchResult list \<Rightarrow> GoalInfo \<Rightarrow> SearchResult option) \<Rightarrow> 'n Client \<Rightarrow> GoalInfo list
     \<Rightarrow> (GoalLinkKey \<rightharpoonup> GoalLink) \<Rightarrow> 'n state \<Rightarrow> (GoalLinkKey \<rightharpoonup> GoalLink) \<times> 'n state" where
  "resolveBatch findBestMatch c [] results s = (results, s)"
| "resolveBatch findBestMatch c (goal # goals) results s =
     (let ((link, err), s1) = GoalLink findBestMatch c goal s
      in resolveBatch findBestMatch c goals
           (case link of
              Some l \<Rightarrow> if err = None then results(goalKey goal \<mapsto> l) else results
            | None \<Rightarrow> results)
           s1)"

text \<open>The outer loop: \<open>for i := 0; i < len(uncachedGoals); i += BatchSize\<close>.\<close>

function batchLoop ::
  "(SearchResult list \<Rightarrow> GoalInfo \<Rightarrow> SearchResult option) \<Rightarrow> 'n Client \<Rightarrow> GoalInfo list \<Rightarrow> nat
     \<Rightarrow> (GoalLinkKey \<rightharpoonup> GoalLink) \<Rightarrow> 'n state \<Rightarrow> (GoalLinkKey \<rightharpoonup> GoalLink) \<times> 'n state" where
  "batchLoop findBestMatch c uncachedGoals i results s =
     (if i < length uncachedGoals then
        (let s0 = (if i > 0 then Sleep BatchDelay s else s);
             end = (if i + BatchSize > length uncachedGoals then length uncachedGoals
                    else i + BatchSize);
             (results1, s1) =
               resolveBatch findBestMatch c (take (end - i) (drop i uncachedGoals)) results s0
         in batchLoop findBestMatch c uncachedGoals (i + BatchSize) results1 s1)
      else (results, s))"
  by pat_completeness auto
termination
  by (relation "measure (\<lambda>(f, c, uncachedGoals, i, results, s). length uncachedGoals - i)")
     (auto simp: BatchSize_def)

declare batchLoop.simps [simp del]

definition GoalLinks ::
  "(SearchResult list \<Rightarrow> GoalInfo \<Rightarrow> SearchResult option) \<Rightarrow> 'n Client \<Rightarrow> GoalInfo list
     \<Rightarrow> 'n state \<Rightarrow> (GoalLinkKey \<rightharpoonup> GoalLink) \<times> 'n state" where
  "GoalLinks findBestMatch c goals s =
     (let (results, uncachedGoals) = collectGoals (cache s) goals (\<lambda>k. False) Map.empty []
      in batchLoop findBestMatch c uncachedGoals 0 results s)"

subsection \<open>Resolving many goals, in the words of the specification\<close>

text \<open>
  The specification describes \<open>resolveMany\<close> as a pipeline: de-duplicate the input by key
  (the first occurrence wins), skip the goals present in the cache, cut the rest into
  batches of five, resolve batch after batch with a delay before every batch but the
  first, go on after a goal that fails, and return the keys that resolved positively.
  The definitions below follow these words; they are compared with \<open>GoalLinks\<close> further down.
\<close>

fun dedupeByKey :: "GoalInfo list \<Rightarrow> GoalInfo list" where
  "dedupeByKey [] = []"
| "dedupeByKey (g # gs) = g # filter (\<lambda>h. goalKey h \<noteq> goalKey g) (dedupeByKey gs)"

definition cachedPositive :: "GoalLinkCache \<Rightarrow> GoalInfo list \<Rightarrow> (GoalLinkKey \<rightharpoonup> GoalLink)" where
  "cachedPositive ca goals k =
     (if k \<in> goalKey ` set goals
      then (case cache_Get ca k of Some (Found l) \<Rightarrow> Some l | Some NotFound \<Rightarrow> None | None \<Rightarrow> None)
      else None)"

definition notCached :: "GoalLinkCache \<Rightarrow> GoalInfo list \<Rightarrow> GoalInfo list" where
  "notCached ca goals = filter (\<lambda>g. cache_Get ca (goalKey g) = None) goals"

fun chunks :: "nat \<Rightarrow> 'a list \<Rightarrow> 'a list list" where
  "chunks n [] = []"
| "chunks n (x # xs) =
     (if n = 0 then [x # xs] else take n (x # xs) # chunks n (drop n (x # xs)))"

declare chunks.simps(2) [simp del]

text \<open>The positive outcomes of one goal after another; a goal that fails adds nothing.\<close>

fun resolveEach ::
  "(SearchResult list \<Rightarrow> GoalInfo \<Rightarrow> SearchResult option) \<Rightarrow> 'n Client \<Rightarrow> GoalInfo list
     \<Rightarrow> (GoalLinkKey \<rightharpoonup> GoalLink) \<Rightarrow> 'n state \<Rightarrow> (GoalLinkKey \<rightharpoonup> GoalLink) \<times> 'n state" where
  "resolveEach findBestMatch c [] found s = (found, s)"
| "resolveEach findBestMatch c (g # gs) found s =
     (case GoalLink findBestMatch c g s of
        ((Some l, None), s1) \<Rightarrow> resolveEach findBestMatch c gs (found(goalKey g \<mapsto> l)) s1
      | ((Some l, Some e), s1) \<Rightarrow> resolveEach findBestMatch c gs found s1
      | ((None, err), s1) \<Rightarrow> resolveEach findBestMatch c gs found s1)"

fun laterBatches ::
  "(SearchResult list \<Rightarrow> GoalInfo \<Rightarrow> SearchResult option) \<Rightarrow> 'n Client \<Rightarrow> GoalInfo list list
     \<Rightarrow> (GoalLinkKey \<rightharpoonup> GoalLink) \<Rightarrow> 'n state \<Rightarrow> (GoalLinkKey \<rightharpoonup> GoalLink) \<times> 'n state" where
  "laterBatches findBestMatch c [] found s = (found, s)"
| "laterBatches findBestMatch c (b # bs) found s =
     (let (found1, s1) = resolveEach findBestMatch c b found (Sleep BatchDelay s)
      in laterBatches findBestMatch c bs found1 s1)"

definition resolveBatches ::
  "(SearchResult list \<Rightarrow> GoalInfo \<Rightarrow> SearchResult option) \<Rightarrow> 'n Client \<Rightarrow> GoalInfo list list
     \<Rightarrow> (GoalLinkKey \<rightharpoonup> GoalLink) \<Rightarrow> 'n state \<Rightarrow> (GoalLinkKey \<rightharpoonup> GoalLink) \<times> 'n state" where
  "resolveBatches findBestMatch c batches found s =
     (case batches of
        [] \<Rightarrow> (found, s)
      | b # bs \<Rightarrow>
          (let (found1, s1) = resolveEach findBestMatch c b found s
           in laterBatches findBestMatch c bs found1 s1))"

definition resolveMany ::
  "(SearchResult list \<Rightarrow> GoalInfo \<Rightarrow> SearchResult option) \<Rightarrow> 'n Client \<Rightarrow> GoalInfo list
     \<Rightarrow> 'n state \<Rightarrow> (GoalLinkKey \<rightharpoonup> GoalLink) \<times> 'n state" where
  "resolveMany findBestMatch c goals s =
     resolveBatches findBestMatch c
       (chunks 5 (notCached (cache s) (dedupeByKey goals)))
       (cachedPositive (cache s) goals) s"

subsection \<open>The rate limiter\<close>

text \<open>
  The mutex \<open>mu\<close> of the limiter is taken and released inside each method, and no method
  calls another while it holds it; in this sequential model it is left out.
\<close>

record rateLimiter =
  lastRequest :: int
  minInterval :: int
  captchaCount :: int
  lastCaptchaTime :: int
  userAgentIndex :: int

text \<open>\<open>newRateLimiter\<close>: the division of \<open>Duration\<close>s truncates, and panics on a zero
  divisor (\<open>None\<close>). The fields that are not set hold their zero values.\<close>

definition newRateLimiter :: "int \<Rightarrow> rateLimiter option" where
  "newRateLimiter requestsPerMinute =
     (if requestsPerMinute = 0 then None
      else Some \<lparr>lastRequest = zeroTime, minInterval = time_Minute sdiv requestsPerMinute,
                 captchaCount = 0, lastCaptchaTime = zeroTime, userAgentIndex = 0\<rparr>)"

text \<open>
  \<open>wait\<close>, entered when the clock reads \<open>now\<close>: the limiter it leaves and the clock at its
  return. Its \<open>time.Sleep\<close> moves the clock on by the duration asked for.
\<close>

definition currentInterval :: "rateLimiter \<Rightarrow> int \<Rightarrow> int" where
  "currentInterval r now =
     (if captchaCount r > 0 \<and> time_Since now (lastCaptchaTime r) < 10 * time_Minute
      then minInterval r * 2 else minInterval r)"

definition wait :: "rateLimiter \<Rightarrow> int \<Rightarrow> rateLimiter \<times> int" where
  "wait r now =
     (let elapsed = time_Since now (lastRequest r);
          now' = (if elapsed < currentInterval r now
                  then now + max 0 (currentInterval r now - elapsed) else now)
      in (r\<lparr>lastRequest := now'\<rparr>, now'))"

definition recordCaptchaError :: "rateLimiter \<Rightarrow> int \<Rightarrow> rateLimiter" where
  "recordCaptchaError r now = r\<lparr>captchaCount := captchaCount r + 1, lastCaptchaTime := now\<rparr>"

definition userAgents :: "string list" where
  "userAgents =
     [''golazo:v1.0.0 (by /u/golazo_app)'',
      ''Mozilla/5.0 (Macintosh; Intel Mac OS X 10_15_7) AppleWebKit/537.36 (KHTML, like Gecko) Chrome/119.0.0.0 Safari/537.36'',
      ''Mozilla/5.0 (Windows NT 10.0; Win64; x64) AppleWebKit/537.36 (KHTML, like Gecko) Chrome/119.0.0.0 Safari/537.36'',
      ''Mozilla/5.0 (X11; Linux x86_64) AppleWebKit/537.36 (KHTML, like Gecko) Chrome/119.0.0.0 Safari/537.36'',
      ''Mozilla/5.0 (Macintosh; Intel Mac OS X 10_15_7) AppleWebKit/605.1.15 (KHTML, like Gecko) Version/17.1 Safari/605.1.15'']"

text \<open>\<open>getNextUserAgent\<close>: indexing outside the slice panics (\<open>None\<close>); \<open>%\<close> truncates.\<close>

definition getNextUserAgent :: "rateLimiter \<Rightarrow> (string \<times> rateLimiter) option" where
  "getNextUserAgent r =
     (if 0 \<le> userAgentIndex r \<and> userAgentIndex r < int (length userAgents)
      then Some (userAgents ! nat (userAgentIndex r),
                 r\<lparr>userAgentIndex := (userAgentIndex r + 1) smod int (length userAgents)\<rparr>)
      else None)"

text \<open>The agents of \<open>n\<close> calls in a row, or \<open>None\<close> when one of them panics.\<close>

fun nextUserAgents :: "nat \<Rightarrow> rateLimiter \<Rightarrow> string list option" where
  "nextUserAgents 0 r = Some []"
| "nextUserAgents (Suc n) r =
     (case getNextUserAgent r of
        None \<Rightarrow> None
      | Some (agent, r') \<Rightarrow> map_option ((#) agent) (nextUserAgents n r'))"



subsection \<open>The anti-bot detector\<close>

text \<open>\<open>strings.ToLower\<close> on the ASCII letters; other bytes are kept.\<close>

definition toLowerChar :: "char \<Rightarrow> char" where
  "toLowerChar c =
     (if 65 \<le> (of_char c :: nat) \<and> (of_char c :: nat) \<le> 90
      then char_of ((of_char c :: nat) + 32) else c)"

definition ToLower :: "string \<Rightarrow> string" where
  "ToLower s = map toLowerChar s"

definition captchaIndicators :: "string list" where
  "captchaIndicators =
     [''prove your humanity'', ''captcha'', ''robot'', ''automated'', ''blocked'',
      ''rate limit'', ''too many requests'']"

definition isCaptchaResponse :: "string \<Rightarrow> bool" where
  "isCaptchaResponse body = list_ex (Contains (ToLower body)) captchaIndicators"

subsection \<open>HTTP\<close>

text \<open>
  A request as the fetchers build it, and what \<open>httpClient.Do\<close> gives back: a transport
  error (\<open>Inl\<close>) or a response with its status and what \<open>io.ReadAll\<close> reads from its body
  (the bytes, and the read error if there is one). \<open>Do\<close> is a parameter: any function
  from the request and the world to a reply and the world after it. So are
  \<open>url.QueryEscape\<close> and the JSON decoders, which give the decoded value or the text of
  the decoding error; \<open>redditSearchResponse\<close> and \<open>toSearchResult\<close> are not among the
  source files, and the search decoder stands for decoding and converting every child.
  \<open>http.NewRequest\<close> fails only on a method or a URL that does not parse; with the
  constant method and the escaped query of this package it returns a request.
\<close>

record request =
  req_Method :: string
  req_URL :: string
  req_Headers :: "(string \<times> string) list"
  req_BasicAuth :: "(string \<times> string) option"
  req_Body :: string

record response =
  StatusCode :: int
  BodyData :: string
  BodyErr :: "string option"

type_synonym 'h transport = "request \<Rightarrow> 'h world \<Rightarrow> (string + response) \<times> 'h world"

record 'h platform =
  Do :: "'h transport"
  QueryEscape :: "string \<Rightarrow> string"
  decodeSearch :: "string \<Rightarrow> string + SearchResult list"
  decodeToken :: "response \<Rightarrow> string + (string \<times> string \<times> int)"

text \<open>How a call ends: it returns, it panics, or it blocks for ever on a lock.\<close>

datatype 'a outcome = Returns 'a | Panics | Deadlocks

definition Unix :: "int \<Rightarrow> int" where
  "Unix t = t div time_Second"

definition onlyMedia :: "SearchResult list \<Rightarrow> SearchResult list" where
  "onlyMedia results = filter (\<lambda>result. Flair result = ''Media'') results"

subsection \<open>The public fetcher\<close>

definition errBlocked :: string where
  "errBlocked = ''reddit is blocking requests (CAPTCHA/bot detection)''"

definition errHTML :: string where
  "errHTML = ''reddit returned HTML instead of JSON (likely CAPTCHA or rate limit)''"

definition publicSearchURL :: "'h platform \<Rightarrow> string \<Rightarrow> int \<Rightarrow> int \<Rightarrow> string" where
  "publicSearchURL p query limit matchTime =
     ''https://www.reddit.com/r/soccer/search.json?q='' @ QueryEscape p query
       @ ''+flair:Media+timestamp:'' @ itoa (Unix (matchTime - 24 * time_Hour)) @ ''..''
       @ itoa (Unix (matchTime + 48 * time_Hour))
       @ ''&restrict_sr=on&sort=relevance&limit='' @ itoa limit"

definition publicRequest :: "string \<Rightarrow> string \<Rightarrow> request" where
  "publicRequest searchURL agent =
     \<lparr>req_Method = ''GET'', req_URL = searchURL,
      req_Headers =
        [(''User-Agent'', agent),
         (''Accept'', ''application/json, text/javascript, */*; q=0.01''),
         (''Accept-Language'', ''en-US,en;q=0.9,*;q=0.5''),
         (''Accept-Encoding'', ''gzip, deflate, br''),
         (''DNT'', ''1''),
         (''Connection'', ''keep-alive''),
         (''Upgrade-Insecure-Requests'', ''1''),
         (''Sec-Fetch-Dest'', ''document''),
         (''Sec-Fetch-Mode'', ''navigate''),
         (''Sec-Fetch-Site'', ''none''),
         (''Cache-Control'', ''max-age=0'')],
      req_BasicAuth = None, req_Body = []\<rparr>"

text \<open>\<open>PublicJSONFetcher.Search\<close>. The state of the fetcher is its rate limiter.\<close>

definition PublicJSONFetcher_Search ::
  "'h platform \<Rightarrow> string \<Rightarrow> int \<Rightarrow> int \<Rightarrow> rateLimiter \<times> 'h world
     \<Rightarrow> (string + SearchResult list) outcome \<times> (rateLimiter \<times> 'h world)" where
  "PublicJSONFetcher_Search p query limit matchTime fw =
     (let (rl, w) = fw;
          (rl1, now1) = wait rl (clock w);
          w1 = w\<lparr>clock := now1\<rparr>;
          searchURL = publicSearchURL p query limit matchTime
      in case getNextUserAgent rl1 of
           None \<Rightarrow> (Panics, (rl1, w1))
         | Some (agent, rl2) \<Rightarrow>
            (let (reply, w2) = Do p (publicRequest searchURL agent) w1
             in case reply of
                  Inl err \<Rightarrow> (Returns (Inl (''fetch from reddit: '' @ err)), (rl2, w2))
                | Inr resp \<Rightarrow>
                    if StatusCode resp \<noteq> 200 then
                      (Returns (Inl (''reddit API error: status '' @ itoa (StatusCode resp)
                                      @ '', body: '' @ BodyData resp)), (rl2, w2))
                    else
                      (case BodyErr resp of
                         Some err \<Rightarrow> (Returns (Inl (''read response: '' @ err)), (rl2, w2))
                       | None \<Rightarrow>
                           if isCaptchaResponse (BodyData resp) then
                             (Returns (Inl errBlocked),
                              (recordCaptchaError rl2 (clock w2), w2))
                           else
                             (case decodeSearch p (BodyData resp) of
                                Inl err \<Rightarrow>
                                  if Contains (BodyData resp) ''<html''
                                     \<or> Contains (BodyData resp) ''<!DOCTYPE html''
                                  then (Returns (Inl errHTML), (rl2, w2))
                                  else (Returns (Inl (''parse response: '' @ err)), (rl2, w2))
                              | Inr results \<Rightarrow> (Returns (Inr (onlyMedia results)), (rl2, w2))))))"

subsection \<open>The OAuth client\<close>

text \<open>
  \<open>tokenMutex\<close> is a \<open>sync.RWMutex\<close>, which is not reentrant: \<open>Lock\<close> on a mutex that is
  held, by a reader or by a writer, blocks until it is released, and \<open>RLock\<close> blocks while
  a writer holds it. In one sequence of calls nobody else releases the mutex, so blocking
  is the outcome \<open>Deadlocks\<close>.
\<close>

datatype RWMutex = Unlocked | ReadLocked nat | WriteLocked

record OAuthClient =
  clientID :: string
  clientSecret :: string
  username :: string
  password :: string
  accessToken :: string
  refreshTokenValue :: string
  tokenExpiry :: int
  tokenMutex :: RWMutex
  oauth_rateLimiter :: rateLimiter

text \<open>The calls of the token lifecycle, in the order they are made.\<close>

datatype tokenCall = AuthenticateCall | RefreshCall

record 'h ostate =
  client :: OAuthClient
  oworld :: "'h world"
  tokenCalls :: "tokenCall list"

definition tokenURL :: string where
  "tokenURL = ''https://www.reddit.com/api/v1/access_token''"

definition tokenUserAgent :: "OAuthClient \<Rightarrow> string" where
  "tokenUserAgent c = username c @ '':v1.0.0 (by /u/'' @ username c @ '')''"

definition tokenRequest :: "OAuthClient \<Rightarrow> string \<Rightarrow> request" where
  "tokenRequest c body =
     \<lparr>req_Method = ''POST'', req_URL = tokenURL,
      req_Headers = [(''Content-Type'', ''application/x-www-form-urlencoded''),
                     (''User-Agent'', tokenUserAgent c)],
      req_BasicAuth = Some (clientID c, clientSecret c), req_Body = body\<rparr>"

text \<open>
  The end of \<open>authenticate\<close> and of \<open>refreshToken\<close>: \<open>tokenMutex.Lock()\<close>, the assignments,
  \<open>tokenMutex.Unlock()\<close>. \<open>keepRefresh\<close> is the guard of \<open>refreshToken\<close> that keeps the old
  refresh token when the reply has none.
\<close>

definition storeToken :: "bool \<Rightarrow> string \<times> string \<times> int \<Rightarrow> 'h ostate \<Rightarrow> string option outcome \<times> 'h ostate" where
  "storeToken keepRefresh oauthResp s =
     (case oauthResp of (access, refresh, expiresIn) \<Rightarrow>
        (case tokenMutex (client s) of
           Unlocked \<Rightarrow>
             (Returns None,
              s\<lparr>client := (client s)
                  \<lparr>accessToken := access,
                   refreshTokenValue :=
                     (if keepRefresh \<and> refresh = [] then refreshTokenValue (client s) else refresh),
                   tokenExpiry := clock (oworld s) + expiresIn * time_Second\<rparr>\<rparr>)
         | ReadLocked n \<Rightarrow> (Deadlocks, s)
         | WriteLocked \<Rightarrow> (Deadlocks, s)))"

definition authenticate :: "'h platform \<Rightarrow> 'h ostate \<Rightarrow> string option outcome \<times> 'h ostate" where
  "authenticate p s =
     (let c = client s;
          body = ''grant_type=password&password='' @ QueryEscape p (password c)
                   @ ''&username='' @ QueryEscape p (username c);
          (reply, w1) = Do p (tokenRequest c body) (oworld s);
          s1 = s\<lparr>oworld := w1, tokenCalls := tokenCalls s @ [AuthenticateCall]\<rparr>
      in case reply of
           Inl err \<Rightarrow> (Returns (Some (''auth request failed: '' @ err)), s1)
         | Inr resp \<Rightarrow>
             if StatusCode resp \<noteq> 200 then
               (Returns (Some (''auth failed with status '' @ itoa (StatusCode resp) @ '': ''
                                @ BodyData resp)), s1)
             else
               (case decodeToken p resp of
                  Inl err \<Rightarrow> (Returns (Some (''parse auth response: '' @ err)), s1)
                | Inr oauthResp \<Rightarrow> storeToken False oauthResp s1))"

definition refreshToken :: "'h platform \<Rightarrow> 'h ostate \<Rightarrow> string option outcome \<times> 'h ostate" where
  "refreshToken p s =
     (let c = client s;
          body = ''grant_type=refresh_token&refresh_token='' @ QueryEscape p (refreshTokenValue c);
          (reply, w1) = Do p (tokenRequest c body) (oworld s);
          s1 = s\<lparr>oworld := w1, tokenCalls := tokenCalls s @ [RefreshCall]\<rparr>
      in case reply of
           Inl err \<Rightarrow> (Returns (Some (''refresh request failed: '' @ err)), s1)
         | Inr resp \<Rightarrow>
             if StatusCode resp \<noteq> 200 then
               (Returns (Some (''token refresh failed with status '' @ itoa (StatusCode resp)
                                @ '': '' @ BodyData resp)), s1)
             else
               (case decodeToken p resp of
                  Inl err \<Rightarrow> (Returns (Some (''parse refresh response: '' @ err)), s1)
                | Inr oauthResp \<Rightarrow> storeToken True oauthResp s1))"

text \<open>The deferred \<open>tokenMutex.Unlock()\<close> of \<open>ensureValidToken\<close>, run when the body returns.\<close>

definition deferUnlock :: "'a outcome \<times> 'h ostate \<Rightarrow> 'a outcome \<times> 'h ostate" where
  "deferUnlock r =
     (case r of
        (Returns x, s) \<Rightarrow> (Returns x, s\<lparr>client := (client s)\<lparr>tokenMutex := Unlocked\<rparr>\<rparr>)
      | (Panics, s) \<Rightarrow> (Panics, s\<lparr>client := (client s)\<lparr>tokenMutex := Unlocked\<rparr>\<rparr>)
      | (Deadlocks, s) \<Rightarrow> (Deadlocks, s))"

definition ensureValidToken :: "'h platform \<Rightarrow> 'h ostate \<Rightarrow> string option outcome \<times> 'h ostate" where
  "ensureValidToken p s =
     (case tokenMutex (client s) of
        WriteLocked \<Rightarrow> (Deadlocks, s)
      | ReadLocked n \<Rightarrow>
          (let tokenValid = (accessToken (client s) \<noteq> []
                 \<and> clock (oworld s) < tokenExpiry (client s) + (- 5 * time_Minute))
           in if \<not> tokenValid then (Deadlocks, s) else (Returns None, s))
      | Unlocked \<Rightarrow>
          (let tokenValid = (accessToken (client s) \<noteq> []
                 \<and> clock (oworld s) < tokenExpiry (client s) + (- 5 * time_Minute))
           in if \<not> tokenValid then
                (let s1 = s\<lparr>client := (client s)\<lparr>tokenMutex := WriteLocked\<rparr>\<rparr>
                 in deferUnlock
                      (if accessToken (client s1) = []
                          \<or> clock (oworld s1) > tokenExpiry (client s1) + (- 5 * time_Minute)
                       then
                         (if refreshTokenValue (client s1) \<noteq> [] then
                            (case refreshToken p s1 of
                               (Returns (Some err), s2) \<Rightarrow> authenticate p s2
                             | (Returns None, s2) \<Rightarrow> (Returns None, s2)
                             | (Panics, s2) \<Rightarrow> (Panics, s2)
                             | (Deadlocks, s2) \<Rightarrow> (Deadlocks, s2))
                          else authenticate p s1)
                       else (Returns None, s1)))
              else (Returns None, s)))"

definition OAuthClient_IsAvailable :: "'h ostate \<Rightarrow> bool" where
  "OAuthClient_IsAvailable s =
     (accessToken (client s) \<noteq> [] \<and> clock (oworld s) < tokenExpiry (client s))"

definition oauthSearchURL :: "'h platform \<Rightarrow> string \<Rightarrow> int \<Rightarrow> int \<Rightarrow> string" where
  "oauthSearchURL p query limit matchTime =
     ''https://oauth.reddit.com/r/soccer/search.json?q='' @ QueryEscape p query
       @ ''+flair:Media+timestamp:'' @ itoa (Unix (matchTime - 24 * time_Hour)) @ ''..''
       @ itoa (Unix (matchTime + 48 * time_Hour))
       @ ''&restrict_sr=on&sort=relevance&limit='' @ itoa limit"

definition oauthRequest :: "OAuthClient \<Rightarrow> string \<Rightarrow> request" where
  "oauthRequest c searchURL =
     \<lparr>req_Method = ''GET'', req_URL = searchURL,
      req_Headers = [(''Authorization'', ''Bearer '' @ accessToken c),
                     (''User-Agent'', tokenUserAgent c)],
      req_BasicAuth = None, req_Body = []\<rparr>"

text \<open>\<open>OAuthClient.Search\<close>.\<close>

definition OAuthClient_Search ::
  "'h platform \<Rightarrow> string \<Rightarrow> int \<Rightarrow> int \<Rightarrow> 'h ostate
     \<Rightarrow> (string + SearchResult list) outcome \<times> 'h ostate" where
  "OAuthClient_Search p query limit matchTime s =
     (let (rl1, now1) = wait (oauth_rateLimiter (client s)) (clock (oworld s));
          s1 = s\<lparr>client := (client s)\<lparr>oauth_rateLimiter := rl1\<rparr>,
                 oworld := (oworld s)\<lparr>clock := now1\<rparr>\<rparr>
      in case ensureValidToken p s1 of
           (Deadlocks, s2) \<Rightarrow> (Deadlocks, s2)
         | (Panics, s2) \<Rightarrow> (Panics, s2)
         | (Returns (Some err), s2) \<Rightarrow> (Returns (Inl (''token validation failed: '' @ err)), s2)
         | (Returns None, s2) \<Rightarrow>
            (case tokenMutex (client s2) of
               WriteLocked \<Rightarrow> (Deadlocks, s2)
             | _ \<Rightarrow>
               (let searchURL = oauthSearchURL p query limit matchTime;
                    (reply, w3) = Do p (oauthRequest (client s2) searchURL) (oworld s2);
                    s3 = s2\<lparr>oworld := w3\<rparr>
                in case reply of
                     Inl err \<Rightarrow> (Returns (Inl (''search request failed: '' @ err)), s3)
                   | Inr resp \<Rightarrow>
                       if StatusCode resp \<noteq> 200 then
                         (Returns (Inl (''OAuth search failed with status ''
                                         @ itoa (StatusCode resp) @ '': '' @ BodyData resp)), s3)
                       else
                         (case BodyErr resp of
                            Some err \<Rightarrow> (Returns (Inl (''read response: '' @ err)), s3)
                          | None \<Rightarrow>
                              (case decodeSearch p (BodyData resp) of
                                 Inl err \<Rightarrow> (Returns (Inl (''parse search response: '' @ err)), s3)
                               | Inr results \<Rightarrow> (Returns (Inr (onlyMedia results)), s3))))))"

subsection \<open>Auxiliary notions and sample values\<close>

text \<open>What the matcher finds among the results of the primary query (nothing when the
  query fails).\<close>

definition primaryMatch ::
  "(SearchResult list \<Rightarrow> GoalInfo \<Rightarrow> SearchResult option) \<Rightarrow> GoalInfo \<Rightarrow> 'n Fetcher \<Rightarrow> 'n state
     \<Rightarrow> SearchResult option" where
  "primaryMatch findBestMatch goal fetcher s =
     (case fst (fetcher (query1 goal) 15 (MatchTime goal) (world s)) of
        Inr results1 \<Rightarrow> findBestMatch results1 goal
      | Inl err \<Rightarrow> None)"

text \<open>The fetcher that does to the world what \<open>fetcher\<close> does, and completes every search
  with no results.\<close>

definition emptyResults :: "'n Fetcher \<Rightarrow> 'n Fetcher" where
  "emptyResults fetcher = (\<lambda>query limit matchTime w. (Inr [], snd (fetcher query limit matchTime w)))"

definition exampleGoal :: GoalInfo where
  "exampleGoal =
     \<lparr>MatchID = 555, Minute = 23, HomeTeam = ''Arsenal'', AwayTeam = ''Chelsea'',
      IsHomeTeam = True, MatchTime = 1700000000 * time_Second\<rparr>"

definition otherGoal :: GoalInfo where
  "otherGoal =
     \<lparr>MatchID = 555, Minute = 61, HomeTeam = ''Arsenal'', AwayTeam = ''Chelsea'',
      IsHomeTeam = False, MatchTime = 1700000000 * time_Second\<rparr>"

definition exampleHit :: SearchResult where
  "exampleHit =
     \<lparr>URL = ''https://streamff.com/v/abc'', Title = ''Arsenal 1-0 Chelsea - 23 GOAL'',
      PostURL = ''https://reddit.com/r/soccer/comments/1'', Flair = ''Media''\<rparr>"

text \<open>A matcher for the samples: the first candidate.\<close>

definition firstCandidate :: "SearchResult list \<Rightarrow> GoalInfo \<Rightarrow> SearchResult option" where
  "firstCandidate results goal = (case results of [] \<Rightarrow> None | r # rs \<Rightarrow> Some r)"

definition failingFetcher :: "string \<Rightarrow> unit Fetcher" where
  "failingFetcher err = (\<lambda>query limit matchTime w. (Inl err, w))"

definition constFetcher :: "SearchResult list \<Rightarrow> unit Fetcher" where
  "constFetcher results = (\<lambda>query limit matchTime w. (Inr results, w))"

definition publicOnly :: "unit Fetcher \<Rightarrow> unit Client" where
  "publicOnly fetcher = \<lparr>oauthFetcher = None, publicFetcher = fetcher\<rparr>"

definition emptyState :: "unit state" where
  "emptyState =
     \<lparr>world = \<lparr>clock = 1700000000 * time_Second, net = ()\<rparr>,
      cache = \<lparr>entries = Map.empty, writable = True\<rparr>, trace = []\<rparr>"

definition notFoundState :: "unit state" where
  "notFoundState =
     emptyState\<lparr>cache := \<lparr>entries = [goalKey exampleGoal \<mapsto> NotFound], writable = True\<rparr>\<rparr>"

definition goalAt :: "int \<Rightarrow> GoalInfo" where
  "goalAt minute = exampleGoal\<lparr>Minute := minute\<rparr>"





text \<open>The limiter of the public fetcher, \<open>newRateLimiter(5)\<close>, and sample values.\<close>

definition publicLimiter :: rateLimiter where
  "publicLimiter =
     \<lparr>lastRequest = zeroTime, minInterval = 12 * time_Second, captchaCount = 0,
      lastCaptchaTime = zeroTime, userAgentIndex = 0\<rparr>"

text \<open>Sample values for \<open>GoalLinks\<close>: a cache with a \<open>NotFound\<close> marker and a link, and a
  fetcher that fails the two queries of the goal of minute 3.\<close>

definition linkAt :: "int \<Rightarrow> int \<Rightarrow> GoalLink" where
  "linkAt minute fetchedAt =
     \<lparr>link_MatchID = 555, link_Minute = minute, link_URL = ''https://streamff.com/v/abc'',
      link_Title = ''Arsenal 1-0 Chelsea - 23 GOAL'',
      link_PostURL = ''https://reddit.com/r/soccer/comments/1'',
      link_FetchedAt = fetchedAt\<rparr>"

definition cachedLink :: GoalLink where
  "cachedLink =
     \<lparr>link_MatchID = 555, link_Minute = 4, link_URL = ''https://streamin.one/v/old'',
      link_Title = ''Arsenal [1]-0 Chelsea - 4 GOAL'',
      link_PostURL = ''https://reddit.com/r/soccer/comments/0'',
      link_FetchedAt = 1699999000000000000\<rparr>"

definition mixedState :: "unit state" where
  "mixedState =
     emptyState\<lparr>cache :=
       \<lparr>entries = [\<lparr>key_MatchID = 555, key_Minute = 2\<rparr> \<mapsto> NotFound,
                   \<lparr>key_MatchID = 555, key_Minute = 4\<rparr> \<mapsto> Found cachedLink],
        writable = True\<rparr>\<rparr>"

definition flakyFetcher :: "unit Fetcher" where
  "flakyFetcher =
     (\<lambda>query limit matchTime w.
        if query = ''Arsenal Chelsea 3'' @ [CHR 0x27] \<or> query = ''Arsenal 3'' @ [CHR 0x27]
        then (Inl ''fetch from reddit: timeout'', w)
        else (Inr [exampleHit], w))"

definition manyGoals :: "GoalInfo list" where
  "manyGoals =
     [goalAt 1, goalAt 1, goalAt 2, goalAt 3, goalAt 4, goalAt 5, goalAt 1, goalAt 6,
      goalAt 7, goalAt 8, goalAt 9]"

text \<open>One \<open>GoalLink\<close> call after another, for the goals of a list; the state they leave.\<close>

fun GoalLinkCalls ::
  "(SearchResult list \<Rightarrow> GoalInfo \<Rightarrow> SearchResult option) \<Rightarrow> 'n Client \<Rightarrow> GoalInfo list
     \<Rightarrow> 'n state \<Rightarrow> 'n state" where
  "GoalLinkCalls findBestMatch c [] s = s"
| "GoalLinkCalls findBestMatch c (g # gs) s =
     GoalLinkCalls findBestMatch c gs (snd (GoalLink findBestMatch c g s))"

definition exampleLink :: GoalLink where
  "exampleLink =
     \<lparr>link_MatchID = 555, link_Minute = 23, link_URL = ''https://streamff.com/v/abc'',
      link_Title = ''Arsenal 1-0 Chelsea - 23 GOAL'',
      link_PostURL = ''https://reddit.com/r/soccer/comments/1'',
      link_FetchedAt = 1700000000000000000\<rparr>"

definition foundState :: "unit state" where
  "foundState =
     emptyState\<lparr>cache := \<lparr>entries = [goalKey exampleGoal \<mapsto> Found exampleLink], writable = True\<rparr>\<rparr>"

text \<open>Sample values for the fetchers: a transport that answers every request with one
  response, a search decoder that knows one body, an OAuth client whose token has an hour
  left (or four minutes), and a transport whose replies carry a token.\<close>

definition otherHit :: SearchResult where
  "otherHit =
     \<lparr>URL = ''https://www.reddit.com/r/soccer/comments/2'', Title = ''Post Match Thread: Arsenal 1-0 Chelsea'',
      PostURL = ''https://reddit.com/r/soccer/comments/2'', Flair = ''Discussion''\<rparr>"

definition samplePlatform :: "response \<Rightarrow> unit platform" where
  "samplePlatform resp =
     \<lparr>Do = (\<lambda>req w. (Inr resp, w)),
      QueryEscape = (\<lambda>q. q),
      decodeSearch = (\<lambda>body. if body = ''[two posts]'' then Inr [exampleHit, otherHit]
                               else Inl ''invalid character'' ),
      decodeToken = (\<lambda>resp. Inl ''unexpected end of JSON input'')\<rparr>"

definition sampleOAuth :: "unit ostate" where
  "sampleOAuth =
     \<lparr>client =
        \<lparr>clientID = ''id'', clientSecret = ''secret'', username = ''golazo_app'',
         password = ''pw'', accessToken = ''token-1'', refreshTokenValue = [],
         tokenExpiry = 1700003600000000000, tokenMutex = Unlocked,
         oauth_rateLimiter =
           \<lparr>lastRequest = - 62135596800000000000, minInterval = 6000000000, captchaCount = 0,
            lastCaptchaTime = - 62135596800000000000, userAgentIndex = 0\<rparr>\<rparr>,
      oworld = \<lparr>clock = 1700000000000000000, net = ()\<rparr>,
      tokenCalls = []\<rparr>"

definition fourMinutesLeft :: "string \<Rightarrow> unit ostate" where
  "fourMinutesLeft refresh =
     sampleOAuth\<lparr>client := (client sampleOAuth)
       \<lparr>refreshTokenValue := refresh, tokenExpiry := 1700000240000000000\<rparr>\<rparr>"

definition grantingPlatform :: "unit platform" where
  "grantingPlatform =
     (samplePlatform \<lparr>StatusCode = 200, BodyData = ''[token]'', BodyErr = None\<rparr>)
       \<lparr>decodeToken := (\<lambda>resp. Inr (''token-2'', [], 3600))\<rparr>"

definition challengePage :: string where
  "challengePage = ''<html><body>Please prove your humanity</body></html>''"

section \<open>Properties\<close>

subsection \<open>One search attempt\<close>

lemma searchForGoalOnce_no_error:
  "searchForGoalOnce findBestMatch goal ch fetcher s = ((a, e), s1) \<Longrightarrow> e = None"
  by (auto simp add: searchForGoalOnce_def Let_def split: prod.splits option.splits sum.splits)

lemma searchForGoalOnce_trace:
  "trace (snd (searchForGoalOnce findBestMatch goal ch fetcher s)) =
     trace s @ (if primaryMatch findBestMatch goal fetcher s \<noteq> None
       then [Searched ch (query1 goal) 15 (MatchTime goal)]
       else [Searched ch (query1 goal) 15 (MatchTime goal),
             Searched ch (query2 goal) 15 (MatchTime goal)])"
  by (auto simp add: searchForGoalOnce_def primaryMatch_def Search_def Let_def
           split: prod.splits option.splits sum.splits)

lemma searchForGoalOnce_cache:
  "cache (snd (searchForGoalOnce findBestMatch goal ch fetcher s)) = cache s"
  by (auto simp add: searchForGoalOnce_def Search_def Let_def
           split: prod.splits option.splits sum.splits)

lemma searchForGoalOnce_both_fail:
  assumes "fetcher (query1 goal) 15 (MatchTime goal) (world s) = (Inl e1, w1)"
    and "fetcher (query2 goal) 15 (MatchTime goal) w1 = (Inl e2, w2)"
  shows "searchForGoalOnce findBestMatch goal ch fetcher s =
     ((map_option (\<lambda>m. mkGoalLink goal m (clock w2)) (findBestMatch [] goal), None),
      s\<lparr>world := w2, trace := trace s @ [Searched ch (query1 goal) 15 (MatchTime goal),
                                         Searched ch (query2 goal) 15 (MatchTime goal)]\<rparr>)"
  using assms
  by (simp add: searchForGoalOnce_def Search_def Let_def split: option.splits)

lemma retryable_errBlocked: "retryable errBlocked"
  by (simp add: retryable_def errBlocked_def)

text \<open>
  Since one attempt never returns an error, the retry loop of \<open>searchForGoal\<close> ends in its
  first round: on either fetcher, \<open>searchForGoal\<close> is one \<open>searchForGoalOnce\<close>.
\<close>

lemma publicAttempts_first_round:
  "publicAttempts findBestMatch c goal 0 s =
     searchForGoalOnce findBestMatch goal Public (publicFetcher c) s"
  by (subst publicAttempts.simps)
     (auto simp: maxRetries_def Let_def split: prod.splits option.splits
           dest: searchForGoalOnce_no_error)

lemma searchForGoal_once:
  "searchForGoal findBestMatch c goal s =
     (case oauthFetcher c of
        Some oa \<Rightarrow>
          if IsAvailable oa (world s)
          then searchForGoalOnce findBestMatch goal OAuth (oauth_Search oa) s
          else searchForGoalOnce findBestMatch goal Public (publicFetcher c) s
      | None \<Rightarrow> searchForGoalOnce findBestMatch goal Public (publicFetcher c) s)"
  by (auto simp: searchForGoal_def publicAttempts_first_round Let_def
           split: option.splits prod.splits dest: searchForGoalOnce_no_error)

text \<open>
  C10. \<open>searchForGoalOnce\<close> returns a nil error for every goal and every fetcher. When the
  primary query fails, its error is dropped and the secondary query is still issued.
  When both queries fail, the call returns what it returns for the fetcher that completes
  both searches with no results: the link the matcher picks from no candidates (none, for
  a matcher that picks none from an empty list) and a nil error.
\<close>

theorem searchForGoalOnce_error_always_nil:
  "snd (fst (searchForGoalOnce findBestMatch goal ch fetcher s)) = None
   \<and> (fetcher (query1 goal) 15 (MatchTime goal) (world s) = (Inl e1, w1) \<longrightarrow>
        trace (snd (searchForGoalOnce findBestMatch goal ch fetcher s)) =
          trace s @ [Searched ch (query1 goal) 15 (MatchTime goal),
                     Searched ch (query2 goal) 15 (MatchTime goal)])
   \<and> (fetcher (query1 goal) 15 (MatchTime goal) (world s) = (Inl e1, w1)
        \<and> fetcher (query2 goal) 15 (MatchTime goal) w1 = (Inl e2, w2)
        \<and> findBestMatch [] goal = None \<longrightarrow>
        fst (searchForGoalOnce findBestMatch goal ch fetcher s) = (None, None)
        \<and> searchForGoalOnce findBestMatch goal ch fetcher s =
            searchForGoalOnce findBestMatch goal ch (emptyResults fetcher) s)"
proof (intro conjI impI)
  show "snd (fst (searchForGoalOnce findBestMatch goal ch fetcher s)) = None"
    by (cases "searchForGoalOnce findBestMatch goal ch fetcher s")
       (auto dest: searchForGoalOnce_no_error)
next
  assume "fetcher (query1 goal) 15 (MatchTime goal) (world s) = (Inl e1, w1)"
  then have "primaryMatch findBestMatch goal fetcher s = None"
    by (simp add: primaryMatch_def)
  then show "trace (snd (searchForGoalOnce findBestMatch goal ch fetcher s)) =
      trace s @ [Searched ch (query1 goal) 15 (MatchTime goal),
                 Searched ch (query2 goal) 15 (MatchTime goal)]"
    by (simp add: searchForGoalOnce_trace)
next
  assume both: "fetcher (query1 goal) 15 (MatchTime goal) (world s) = (Inl e1, w1)
      \<and> fetcher (query2 goal) 15 (MatchTime goal) w1 = (Inl e2, w2)
      \<and> findBestMatch [] goal = None"
  then show "fst (searchForGoalOnce findBestMatch goal ch fetcher s) = (None, None)"
    by (simp add: searchForGoalOnce_both_fail)
  from both show "searchForGoalOnce findBestMatch goal ch fetcher s =
      searchForGoalOnce findBestMatch goal ch (emptyResults fetcher) s"
    by (simp add: searchForGoalOnce_def Search_def emptyResults_def Let_def)
qed

theorem searchForGoalOnce_error_always_nil_witness:
  "fst (searchForGoalOnce firstCandidate exampleGoal Public
          (failingFetcher ''fetch from reddit: timeout'') emptyState) = (None, None)
   \<and> searchForGoalOnce firstCandidate exampleGoal Public
          (failingFetcher ''fetch from reddit: timeout'') emptyState =
     searchForGoalOnce firstCandidate exampleGoal Public (constFetcher []) emptyState
   \<and> trace (snd (searchForGoalOnce firstCandidate exampleGoal Public
          (failingFetcher ''fetch from reddit: timeout'') emptyState)) =
       [Searched Public (query1 exampleGoal) 15 (MatchTime exampleGoal),
        Searched Public (query2 exampleGoal) 15 (MatchTime exampleGoal)]"
proof -
  let ?f = "failingFetcher ''fetch from reddit: timeout''"
  have e: "emptyResults ?f = constFetcher []"
    by (simp add: emptyResults_def failingFetcher_def constFetcher_def)
  have a: "?f q 15 mt w = (Inl ''fetch from reddit: timeout'', w)" for q mt w
    by (simp add: failingFetcher_def)
  have c: "firstCandidate [] exampleGoal = None"
    by (simp add: firstCandidate_def)
  have t: "trace emptyState = []"
    by (simp add: emptyState_def)
  have h: "?f (query1 exampleGoal) 15 (MatchTime exampleGoal) (world emptyState)
        = (Inl ''fetch from reddit: timeout'', world emptyState)
      \<and> ?f (query2 exampleGoal) 15 (MatchTime exampleGoal) (world emptyState)
        = (Inl ''fetch from reddit: timeout'', world emptyState)
      \<and> firstCandidate [] exampleGoal = None"
    by (simp add: a c)
  note th = searchForGoalOnce_error_always_nil [of firstCandidate exampleGoal Public
      ?f emptyState "''fetch from reddit: timeout''" "world emptyState"
      "''fetch from reddit: timeout''" "world emptyState",
      THEN conjunct2, THEN conjunct2, rule_format, OF h]
  from th have 1: "fst (searchForGoalOnce firstCandidate exampleGoal Public ?f emptyState)
      = (None, None)"
    by (rule conjunct1)
  from th have 2: "searchForGoalOnce firstCandidate exampleGoal Public ?f emptyState =
      searchForGoalOnce firstCandidate exampleGoal Public (constFetcher []) emptyState"
    unfolding e by (rule conjunct2)
  have 3: "trace (snd (searchForGoalOnce firstCandidate exampleGoal Public ?f emptyState)) =
       [Searched Public (query1 exampleGoal) 15 (MatchTime exampleGoal),
        Searched Public (query2 exampleGoal) 15 (MatchTime exampleGoal)]"
    by (simp add: searchForGoalOnce_trace primaryMatch_def a t)
  show ?thesis using 1 2 3 by blast
qed

text \<open>
  C4. Within one attempt the primary query (both team names and the minute marker, limit
  15) is issued first. When the matcher finds a match \<open>m\<close> among its results, the call
  returns at once the link of that match (the goal's match id and minute, the URL, title
  and post URL of \<open>m\<close>, fetched at the time the primary query returned) with a nil error,
  and the secondary query (scoring team and minute marker) is not issued; the secondary
  query is issued exactly when the primary attempt gave no match (its results matched
  nothing, or it failed).
\<close>

theorem searchForGoalOnce_primary_first:
  "(\<exists>rest. trace (snd (searchForGoalOnce findBestMatch goal ch fetcher s)) =
        trace s @ Searched ch (query1 goal) 15 (MatchTime goal) # rest)
   \<and> query1 goal = HomeTeam goal @ '' '' @ AwayTeam goal @ '' '' @ itoa (Minute goal) @ [CHR 0x27]
   \<and> query2 goal = (if IsHomeTeam goal then HomeTeam goal else AwayTeam goal)
                     @ '' '' @ itoa (Minute goal) @ [CHR 0x27]
   \<and> primaryMatch findBestMatch goal fetcher s =
       (case fst (fetcher (query1 goal) 15 (MatchTime goal) (world s)) of
          Inr results1 \<Rightarrow> findBestMatch results1 goal
        | Inl err \<Rightarrow> None)
   \<and> (primaryMatch findBestMatch goal fetcher s = Some m \<longrightarrow>
        searchForGoalOnce findBestMatch goal ch fetcher s =
          ((Some \<lparr>link_MatchID = MatchID goal, link_Minute = Minute goal, link_URL = URL m,
                  link_Title = Title m, link_PostURL = PostURL m,
                  link_FetchedAt =
                    clock (snd (fetcher (query1 goal) 15 (MatchTime goal) (world s)))\<rparr>,
            None),
           s\<lparr>world := snd (fetcher (query1 goal) 15 (MatchTime goal) (world s)),
             trace := trace s @ [Searched ch (query1 goal) 15 (MatchTime goal)]\<rparr>))
   \<and> (primaryMatch findBestMatch goal fetcher s = None \<longrightarrow>
        trace (snd (searchForGoalOnce findBestMatch goal ch fetcher s)) =
          trace s @ [Searched ch (query1 goal) 15 (MatchTime goal),
                     Searched ch (query2 goal) 15 (MatchTime goal)])"
proof (intro conjI impI)
  show "\<exists>rest. trace (snd (searchForGoalOnce findBestMatch goal ch fetcher s)) =
        trace s @ Searched ch (query1 goal) 15 (MatchTime goal) # rest"
    by (simp add: searchForGoalOnce_trace)
next
  show "query1 goal = HomeTeam goal @ '' '' @ AwayTeam goal @ '' '' @ itoa (Minute goal) @ [CHR 0x27]"
    by (simp add: query1_def)
next
  show "query2 goal = (if IsHomeTeam goal then HomeTeam goal else AwayTeam goal)
                     @ '' '' @ itoa (Minute goal) @ [CHR 0x27]"
    by (simp add: query2_def)
next
  show "primaryMatch findBestMatch goal fetcher s =
       (case fst (fetcher (query1 goal) 15 (MatchTime goal) (world s)) of
          Inr results1 \<Rightarrow> findBestMatch results1 goal
        | Inl err \<Rightarrow> None)"
    by (simp add: primaryMatch_def)
next
  assume pm: "primaryMatch findBestMatch goal fetcher s = Some m"
  then show "searchForGoalOnce findBestMatch goal ch fetcher s =
          ((Some \<lparr>link_MatchID = MatchID goal, link_Minute = Minute goal, link_URL = URL m,
                  link_Title = Title m, link_PostURL = PostURL m,
                  link_FetchedAt =
                    clock (snd (fetcher (query1 goal) 15 (MatchTime goal) (world s)))\<rparr>,
            None),
           s\<lparr>world := snd (fetcher (query1 goal) 15 (MatchTime goal) (world s)),
             trace := trace s @ [Searched ch (query1 goal) 15 (MatchTime goal)]\<rparr>)"
    by (auto simp add: searchForGoalOnce_def primaryMatch_def Search_def Let_def mkGoalLink_def
             split: prod.splits option.splits sum.splits)
next
  assume "primaryMatch findBestMatch goal fetcher s = None"
  then show "trace (snd (searchForGoalOnce findBestMatch goal ch fetcher s)) =
          trace s @ [Searched ch (query1 goal) 15 (MatchTime goal),
                     Searched ch (query2 goal) 15 (MatchTime goal)]"
    by (simp add: searchForGoalOnce_trace)
qed

theorem searchForGoalOnce_primary_first_witness:
  "primaryMatch firstCandidate exampleGoal (constFetcher [exampleHit]) emptyState = Some exampleHit
   \<and> searchForGoalOnce firstCandidate exampleGoal Public (constFetcher [exampleHit]) emptyState
       = ((Some \<lparr>link_MatchID = 555, link_Minute = 23,
                  link_URL = ''https://streamff.com/v/abc'',
                  link_Title = ''Arsenal 1-0 Chelsea - 23 GOAL'',
                  link_PostURL = ''https://reddit.com/r/soccer/comments/1'',
                  link_FetchedAt = 1700000000000000000\<rparr>, None),
          emptyState\<lparr>trace := [Searched Public (''Arsenal Chelsea 23'' @ [CHR 0x27]) 15
                                   1700000000000000000]\<rparr>)
   \<and> primaryMatch firstCandidate exampleGoal (constFetcher []) emptyState = None
   \<and> trace (snd (searchForGoalOnce firstCandidate exampleGoal Public (constFetcher []) emptyState))
       = [Searched Public (''Arsenal Chelsea 23'' @ [CHR 0x27]) 15 1700000000000000000,
          Searched Public (''Arsenal 23'' @ [CHR 0x27]) 15 1700000000000000000]"
proof -
  have p1: "primaryMatch firstCandidate exampleGoal (constFetcher [exampleHit]) emptyState
      = Some exampleHit"
    by (simp add: primaryMatch_def constFetcher_def firstCandidate_def)
  have p2: "primaryMatch firstCandidate exampleGoal (constFetcher []) emptyState = None"
    by (simp add: primaryMatch_def constFetcher_def firstCandidate_def)
  have q1: "query1 exampleGoal = ''Arsenal Chelsea 23'' @ [CHR 0x27]"
    by (simp add: query1_def exampleGoal_def itoa_def nat_digits.simps)
  have q2: "query2 exampleGoal = ''Arsenal 23'' @ [CHR 0x27]"
    by (simp add: query2_def exampleGoal_def itoa_def nat_digits.simps)
  have g: "MatchID exampleGoal = 555" "Minute exampleGoal = 23"
      "MatchTime exampleGoal = 1700000000000000000"
    by (simp_all add: exampleGoal_def time_Second_def)
  have e: "world emptyState = \<lparr>clock = 1700000000000000000, net = ()\<rparr>" "trace emptyState = []"
    by (simp_all add: emptyState_def time_Second_def)
  note a = searchForGoalOnce_primary_first [of firstCandidate exampleGoal Public
        "constFetcher [exampleHit]" emptyState exampleHit,
        THEN conjunct2, THEN conjunct2, THEN conjunct2, THEN conjunct2, THEN conjunct1,
        rule_format, OF p1]
  note b = searchForGoalOnce_primary_first [of firstCandidate exampleGoal Public
        "constFetcher []" emptyState exampleHit,
        THEN conjunct2, THEN conjunct2, THEN conjunct2, THEN conjunct2, THEN conjunct2,
        rule_format, OF p2]
  have a': "searchForGoalOnce firstCandidate exampleGoal Public (constFetcher [exampleHit]) emptyState
       = ((Some \<lparr>link_MatchID = 555, link_Minute = 23,
                  link_URL = ''https://streamff.com/v/abc'',
                  link_Title = ''Arsenal 1-0 Chelsea - 23 GOAL'',
                  link_PostURL = ''https://reddit.com/r/soccer/comments/1'',
                  link_FetchedAt = 1700000000000000000\<rparr>, None),
          emptyState\<lparr>trace := [Searched Public (''Arsenal Chelsea 23'' @ [CHR 0x27]) 15
                                   1700000000000000000]\<rparr>)"
    unfolding a by (simp add: q1 g e constFetcher_def exampleHit_def)
  have b': "trace (snd (searchForGoalOnce firstCandidate exampleGoal Public (constFetcher []) emptyState))
       = [Searched Public (''Arsenal Chelsea 23'' @ [CHR 0x27]) 15 1700000000000000000,
          Searched Public (''Arsenal 23'' @ [CHR 0x27]) 15 1700000000000000000]"
    unfolding b by (simp add: q1 q2 g e)
  show ?thesis using p1 p2 a' b' by blast
qed

subsection \<open>The cache in front of the search\<close>

lemma GoalLink_cached:
  "cache_Get (cache s) (goalKey goal) = Some outcome \<Longrightarrow>
   GoalLink findBestMatch c goal s =
     ((case outcome of Found l \<Rightarrow> Some l | NotFound \<Rightarrow> None, None), s)"
  by (simp add: GoalLink_def split: ResolutionOutcome.splits)

lemma GoalLink_uncached:
  "cache_Get (cache s) (goalKey goal) = None \<Longrightarrow>
   GoalLink findBestMatch c goal s =
     (case searchForGoal findBestMatch c goal s of
        ((Some l, err), s1) \<Rightarrow> ((Some l, None), s1\<lparr>cache := snd (cache_Set (cache s1) l)\<rparr>)
      | ((None, err), s1) \<Rightarrow>
          ((None, None),
           s1\<lparr>cache := snd (cache_SetNotFound (cache s1) (MatchID goal) (Minute goal))\<rparr>))"
  by (auto simp add: GoalLink_def searchForGoal_once split: option.splits prod.splits
           dest: searchForGoalOnce_no_error)

lemma searchForGoalOnce_link_key:
  "searchForGoalOnce findBestMatch goal ch fetcher s = ((Some l, e), s1) \<Longrightarrow>
   link_MatchID l = MatchID goal \<and> link_Minute l = Minute goal"
  by (auto simp add: searchForGoalOnce_def Let_def mkGoalLink_def
           split: prod.splits option.splits sum.splits)

lemma searchForGoal_cache:
  "cache (snd (searchForGoal findBestMatch c goal s)) = cache s"
  by (simp add: searchForGoal_once searchForGoalOnce_cache split: option.splits)

lemma searchForGoal_link_key:
  "searchForGoal findBestMatch c goal s = ((Some l, e), s1) \<Longrightarrow>
   link_MatchID l = MatchID goal \<and> link_Minute l = Minute goal"
  by (auto simp add: searchForGoal_once split: option.splits if_splits
           dest: searchForGoalOnce_link_key)

text \<open>No \<open>GoalLink\<close> call removes or replaces an entry of the cache.\<close>

lemma GoalLink_keeps_entry:
  assumes "cache_Get (cache s) k = Some outcome"
  shows "cache_Get (cache (snd (GoalLink findBestMatch c g s))) k = Some outcome"
proof (cases "cache_Get (cache s) (goalKey g)")
  case (Some o')
  then show ?thesis using assms by (simp add: GoalLink_cached)
next
  case None
  then have ne: "goalKey g \<noteq> k" using assms by auto
  obtain link err s1 where r: "searchForGoal findBestMatch c g s = ((link, err), s1)"
    by (metis prod.collapse)
  have c1: "cache s1 = cache s"
    using searchForGoal_cache[of findBestMatch c g s] r by simp
  show ?thesis
  proof (cases link)
    case None
    then show ?thesis
      using assms ne r c1 \<open>cache_Get (cache s) (goalKey g) = None\<close>
      by (simp add: GoalLink_uncached cache_SetNotFound_def cache_Get_def goalKey_def)
  next
    case (Some l)
    then have "link_MatchID l = MatchID g \<and> link_Minute l = Minute g"
      using searchForGoal_link_key r by blast
    then show ?thesis
      using assms ne r c1 Some \<open>cache_Get (cache s) (goalKey g) = None\<close>
      by (simp add: GoalLink_uncached cache_Set_def cache_Get_def goalKey_def)
  qed
qed

lemma GoalLinkCalls_keeps_entry:
  "cache_Get (cache s) k = Some outcome \<Longrightarrow>
   cache_Get (cache (GoalLinkCalls findBestMatch c gs s)) k = Some outcome"
  by (induction gs arbitrary: s) (simp_all add: GoalLink_keeps_entry)

text \<open>
  C1. For a goal whose key (match id, minute) has a cache entry, \<open>GoalLink\<close> returns the
  cached outcome and leaves the state as it was: the trace gains no search, the world is
  untouched. A \<open>Found\<close> entry is returned as the link, a \<open>NotFound\<close> marker as no link,
  both with a nil error. No \<open>GoalLink\<close> call removes the entry, so after any further
  \<open>GoalLink\<close> calls, for any goals, a call for that key still returns the cached outcome
  without a search.
\<close>

theorem GoalLink_cache_hit:
  assumes "cache_Get (cache s) (goalKey goal) = Some outcome"
  shows "GoalLink findBestMatch c goal s =
       ((case outcome of Found l \<Rightarrow> Some l | NotFound \<Rightarrow> None, None), s)
     \<and> goalKey goal = \<lparr>key_MatchID = MatchID goal, key_Minute = Minute goal\<rparr>
     \<and> cache_Get (cache s) (goalKey goal) =
         entries (cache s) \<lparr>key_MatchID = MatchID goal, key_Minute = Minute goal\<rparr>
     \<and> GoalLink findBestMatch c goal (GoalLinkCalls findBestMatch c gs s) =
         ((case outcome of Found l \<Rightarrow> Some l | NotFound \<Rightarrow> None, None),
          GoalLinkCalls findBestMatch c gs s)"
proof (intro conjI)
  show "GoalLink findBestMatch c goal s =
       ((case outcome of Found l \<Rightarrow> Some l | NotFound \<Rightarrow> None, None), s)"
    using assms by (rule GoalLink_cached)
  show "goalKey goal = \<lparr>key_MatchID = MatchID goal, key_Minute = Minute goal\<rparr>"
    by (simp add: goalKey_def)
  show "cache_Get (cache s) (goalKey goal) =
         entries (cache s) \<lparr>key_MatchID = MatchID goal, key_Minute = Minute goal\<rparr>"
    by (simp add: goalKey_def cache_Get_def)
  show "GoalLink findBestMatch c goal (GoalLinkCalls findBestMatch c gs s) =
         ((case outcome of Found l \<Rightarrow> Some l | NotFound \<Rightarrow> None, None),
          GoalLinkCalls findBestMatch c gs s)"
    using GoalLinkCalls_keeps_entry[OF assms] by (rule GoalLink_cached)
qed

theorem GoalLink_cache_hit_witness:
  "entries (cache notFoundState) \<lparr>key_MatchID = 555, key_Minute = 23\<rparr> = Some NotFound
   \<and> GoalLink firstCandidate (publicOnly (constFetcher [exampleHit])) exampleGoal notFoundState
       = ((None, None), notFoundState)
   \<and> trace notFoundState = []
   \<and> fst (GoalLink firstCandidate (publicOnly (constFetcher [exampleHit])) exampleGoal
        (GoalLinkCalls firstCandidate (publicOnly (constFetcher [exampleHit]))
           [otherGoal, exampleGoal] notFoundState)) = (None, None)
   \<and> trace (GoalLinkCalls firstCandidate (publicOnly (constFetcher [exampleHit]))
        [otherGoal, exampleGoal, exampleGoal] notFoundState) =
       [Searched Public (''Arsenal Chelsea 61'' @ [CHR 0x27]) 15 1700000000000000000]
   \<and> entries (cache foundState) \<lparr>key_MatchID = 555, key_Minute = 23\<rparr> = Some (Found exampleLink)
   \<and> GoalLink firstCandidate (publicOnly (failingFetcher ''fetch from reddit: timeout''))
        exampleGoal foundState
       = ((Some \<lparr>link_MatchID = 555, link_Minute = 23, link_URL = ''https://streamff.com/v/abc'',
                  link_Title = ''Arsenal 1-0 Chelsea - 23 GOAL'',
                  link_PostURL = ''https://reddit.com/r/soccer/comments/1'',
                  link_FetchedAt = 1700000000000000000\<rparr>, None), foundState)"
proof -
  let ?c = "publicOnly (constFetcher [exampleHit])"
  have k: "goalKey exampleGoal = \<lparr>key_MatchID = 555, key_Minute = 23\<rparr>"
    by (simp add: goalKey_def exampleGoal_def)
  have h: "cache_Get (cache notFoundState) (goalKey exampleGoal) = Some NotFound"
    by (simp add: notFoundState_def cache_Get_def)
  have h': "cache_Get (cache foundState) (goalKey exampleGoal) = Some (Found exampleLink)"
    by (simp add: foundState_def cache_Get_def)
  have t: "trace notFoundState = []"
    by (simp add: notFoundState_def emptyState_def)
  note a = GoalLink_cache_hit [OF h, of firstCandidate ?c "[otherGoal, exampleGoal]"]
  note b = GoalLink_cache_hit [OF h', of firstCandidate
      "publicOnly (failingFetcher ''fetch from reddit: timeout'')" "[]"]
  have 1: "entries (cache notFoundState) \<lparr>key_MatchID = 555, key_Minute = 23\<rparr> = Some NotFound"
    using h by (simp add: cache_Get_def k)
  have 2: "GoalLink firstCandidate ?c exampleGoal notFoundState = ((None, None), notFoundState)"
    using a by simp
  have 3: "fst (GoalLink firstCandidate ?c exampleGoal
        (GoalLinkCalls firstCandidate ?c [otherGoal, exampleGoal] notFoundState)) = (None, None)"
    using a by simp
  have o: "cache_Get (cache notFoundState) (goalKey otherGoal) = None"
    by (simp add: notFoundState_def cache_Get_def goalKey_def otherGoal_def exampleGoal_def)
  have q: "query1 otherGoal = ''Arsenal Chelsea 61'' @ [CHR 0x27]"
    by (simp add: query1_def otherGoal_def itoa_def nat_digits.simps)
  have s1: "trace (snd (GoalLink firstCandidate ?c otherGoal notFoundState)) =
       [Searched Public (''Arsenal Chelsea 61'' @ [CHR 0x27]) 15 1700000000000000000]"
    using o q
    by (simp add: GoalLink_uncached searchForGoal_once publicOnly_def searchForGoalOnce_def
          Search_def constFetcher_def firstCandidate_def Let_def t otherGoal_def time_Second_def)
  have h1: "cache_Get (cache (snd (GoalLink firstCandidate ?c otherGoal notFoundState)))
      (goalKey exampleGoal) = Some NotFound"
    using h by (rule GoalLink_keeps_entry)
  have 4: "trace (GoalLinkCalls firstCandidate ?c [otherGoal, exampleGoal, exampleGoal]
        notFoundState) =
       [Searched Public (''Arsenal Chelsea 61'' @ [CHR 0x27]) 15 1700000000000000000]"
    by (simp add: GoalLink_cached[OF h1] s1)
  have 5: "entries (cache foundState) \<lparr>key_MatchID = 555, key_Minute = 23\<rparr>
      = Some (Found exampleLink)"
    using h' by (simp add: cache_Get_def k)
  have 6: "GoalLink firstCandidate (publicOnly (failingFetcher ''fetch from reddit: timeout''))
        exampleGoal foundState
       = ((Some \<lparr>link_MatchID = 555, link_Minute = 23, link_URL = ''https://streamff.com/v/abc'',
                  link_Title = ''Arsenal 1-0 Chelsea - 23 GOAL'',
                  link_PostURL = ''https://reddit.com/r/soccer/comments/1'',
                  link_FetchedAt = 1700000000000000000\<rparr>, None), foundState)"
    using b by (simp add: exampleLink_def)
  show ?thesis using 1 2 t 3 4 5 6 by blast
qed

subsection \<open>Fetch errors\<close>

text \<open>A client all of whose searches fail, on both fetchers.\<close>

lemma searchForGoal_all_fail:
  assumes pub: "\<forall>query limit matchTime w. \<exists>e. fst (publicFetcher c query limit matchTime w) = Inl e"
    and oa: "\<forall>oa query limit matchTime w.
        oauthFetcher c = Some oa \<longrightarrow> (\<exists>e. fst (oauth_Search oa query limit matchTime w) = Inl e)"
    and nomatch: "findBestMatch [] goal = None"
  shows "fst (searchForGoal findBestMatch c goal s) = (None, None)"
proof -
  have one: "fst (searchForGoalOnce findBestMatch goal ch fetcher s) = (None, None)"
    if f: "\<forall>query limit matchTime w. \<exists>e. fst (fetcher query limit matchTime w) = Inl e"
    for ch and fetcher :: "'a Fetcher"
  proof -
    obtain e1 w1 where 1: "fetcher (query1 goal) 15 (MatchTime goal) (world s) = (Inl e1, w1)"
      using f by (metis prod.collapse)
    obtain e2 w2 where 2: "fetcher (query2 goal) 15 (MatchTime goal) w1 = (Inl e2, w2)"
      using f by (metis prod.collapse)
    show ?thesis
      by (simp add: searchForGoalOnce_both_fail[where fetcher = fetcher, OF 1 2] nomatch)
  qed
  show ?thesis
  proof (cases "oauthFetcher c")
    case None
    then show ?thesis using one[OF pub] by (simp add: searchForGoal_once)
  next
    case (Some h)
    have "\<forall>query limit matchTime w. \<exists>e. fst (oauth_Search h query limit matchTime w) = Inl e"
      using oa Some by blast
    then show ?thesis using Some one[OF pub] one by (simp add: searchForGoal_once)
  qed
qed

text \<open>
  C2. The claim is that a fetch error makes \<open>GoalLink\<close> return the error and write nothing
  to the cache. What \<open>GoalLink\<close> does, for a goal with no cache entry on a client all of
  whose searches fail: it returns no link and a nil error, and calls \<open>SetNotFound\<close> for the
  key, so a writable cache then holds the \<open>NotFound\<close> marker for the key, and the next
  \<open>GoalLink\<close> call for the goal returns no link without a search.
\<close>

theorem GoalLink_caches_failed_fetch:
  assumes "cache_Get (cache s) (goalKey goal) = None"
    and "\<forall>query limit matchTime w. \<exists>e. fst (publicFetcher c query limit matchTime w) = Inl e"
    and "\<forall>oa query limit matchTime w.
        oauthFetcher c = Some oa \<longrightarrow> (\<exists>e. fst (oauth_Search oa query limit matchTime w) = Inl e)"
    and "findBestMatch [] goal = None"
  shows "fst (GoalLink findBestMatch c goal s) = (None, None)
    \<and> entries (cache (snd (GoalLink findBestMatch c goal s))) =
        (if writable (cache s)
         then (entries (cache s))
                (\<lparr>key_MatchID = MatchID goal, key_Minute = Minute goal\<rparr> \<mapsto> NotFound)
         else entries (cache s))
    \<and> (writable (cache s) \<longrightarrow>
        GoalLink findBestMatch c goal (snd (GoalLink findBestMatch c goal s)) =
          ((None, None), snd (GoalLink findBestMatch c goal s)))"
proof -
  obtain link err s1 where r: "searchForGoal findBestMatch c goal s = ((link, err), s1)"
    by (metis prod.collapse)
  have l: "link = None"
    using searchForGoal_all_fail[where findBestMatch = findBestMatch and c = c and goal = goal
        and s = s, OF assms(2,3,4)] r by simp
  have c1: "cache s1 = cache s"
    using searchForGoal_cache[of findBestMatch c goal s] r by simp
  have g: "GoalLink findBestMatch c goal s =
      ((None, None), s1\<lparr>cache := snd (cache_SetNotFound (cache s) (MatchID goal) (Minute goal))\<rparr>)"
    using assms(1) r l c1 by (simp add: GoalLink_uncached)
  have a: "fst (GoalLink findBestMatch c goal s) = (None, None)"
    by (simp add: g)
  have b: "entries (cache (snd (GoalLink findBestMatch c goal s))) =
        (if writable (cache s)
         then (entries (cache s))
                (\<lparr>key_MatchID = MatchID goal, key_Minute = Minute goal\<rparr> \<mapsto> NotFound)
         else entries (cache s))"
    by (simp add: g cache_SetNotFound_def)
  have d: "GoalLink findBestMatch c goal (snd (GoalLink findBestMatch c goal s)) =
          ((None, None), snd (GoalLink findBestMatch c goal s))" if "writable (cache s)"
  proof -
    have "cache_Get (cache (snd (GoalLink findBestMatch c goal s))) (goalKey goal) = Some NotFound"
      using that b by (simp add: cache_Get_def goalKey_def)
    then show ?thesis using GoalLink_cached by fastforce
  qed
  show ?thesis using a b d by blast
qed

theorem GoalLink_caches_failed_fetch_witness:
  "GoalLink firstCandidate (publicOnly (failingFetcher ''fetch from reddit: i/o timeout''))
          exampleGoal emptyState =
     ((None, None),
      emptyState\<lparr>cache := \<lparr>entries = [\<lparr>key_MatchID = 555, key_Minute = 23\<rparr> \<mapsto> NotFound],
                            writable = True\<rparr>,
                 trace := [Searched Public (''Arsenal Chelsea 23'' @ [CHR 0x27]) 15 1700000000000000000,
                           Searched Public (''Arsenal 23'' @ [CHR 0x27]) 15 1700000000000000000]\<rparr>)
   \<and> GoalLink firstCandidate (publicOnly (failingFetcher ''fetch from reddit: i/o timeout''))
        exampleGoal
        (snd (GoalLink firstCandidate
           (publicOnly (failingFetcher ''fetch from reddit: i/o timeout'')) exampleGoal emptyState))
      = ((None, None),
         snd (GoalLink firstCandidate
           (publicOnly (failingFetcher ''fetch from reddit: i/o timeout'')) exampleGoal emptyState))"
proof -
  let ?f = "failingFetcher ''fetch from reddit: i/o timeout''"
  let ?r = "GoalLink firstCandidate (publicOnly ?f) exampleGoal emptyState"
  have 1: "cache_Get (cache emptyState) (goalKey exampleGoal) = None"
    by (simp add: emptyState_def cache_Get_def)
  have 2: "\<forall>query limit matchTime w. \<exists>e.
      fst (publicFetcher (publicOnly ?f) query limit matchTime w) = Inl e"
    by (simp add: failingFetcher_def publicOnly_def)
  have 3: "\<forall>oa query limit matchTime w. oauthFetcher (publicOnly ?f) = Some oa \<longrightarrow>
      (\<exists>e. fst (oauth_Search oa query limit matchTime w) = Inl e)"
    by (simp add: publicOnly_def)
  have 4: "firstCandidate [] exampleGoal = None" by (simp add: firstCandidate_def)
  have 5: "writable (cache emptyState)" by (simp add: emptyState_def)
  note th = GoalLink_caches_failed_fetch [where findBestMatch = firstCandidate
        and goal = exampleGoal and s = emptyState and c = "publicOnly ?f", OF 1 2 3 4]
  have q1: "query1 exampleGoal = ''Arsenal Chelsea 23'' @ [CHR 0x27]"
    by (simp add: query1_def exampleGoal_def itoa_def nat_digits.simps)
  have q2: "query2 exampleGoal = ''Arsenal 23'' @ [CHR 0x27]"
    by (simp add: query2_def exampleGoal_def itoa_def nat_digits.simps)
  have w: "world (snd ?r) = world emptyState"
    and t: "trace (snd ?r) =
        [Searched Public (''Arsenal Chelsea 23'' @ [CHR 0x27]) 15 1700000000000000000,
         Searched Public (''Arsenal 23'' @ [CHR 0x27]) 15 1700000000000000000]"
    and wr: "writable (cache (snd ?r))"
    using 1 q1 q2
    by (simp_all add: GoalLink_uncached searchForGoal_once publicOnly_def searchForGoalOnce_def
          Search_def failingFetcher_def firstCandidate_def Let_def cache_SetNotFound_def
          emptyState_def exampleGoal_def time_Second_def)
  from th have f: "fst ?r = (None, None)" by blast
  from th 5 have e: "entries (cache (snd ?r)) =
      [\<lparr>key_MatchID = 555, key_Minute = 23\<rparr> \<mapsto> NotFound]"
    by (simp add: emptyState_def exampleGoal_def)
  have c: "cache (snd ?r) =
      \<lparr>entries = [\<lparr>key_MatchID = 555, key_Minute = 23\<rparr> \<mapsto> NotFound], writable = True\<rparr>"
    using e wr by (cases "cache (snd ?r)") simp
  have a: "?r = ((None, None),
      emptyState\<lparr>cache := \<lparr>entries = [\<lparr>key_MatchID = 555, key_Minute = 23\<rparr> \<mapsto> NotFound],
                            writable = True\<rparr>,
                 trace := [Searched Public (''Arsenal Chelsea 23'' @ [CHR 0x27]) 15 1700000000000000000,
                           Searched Public (''Arsenal 23'' @ [CHR 0x27]) 15 1700000000000000000]\<rparr>)"
    using f w t c by (cases ?r) (auto simp: state.equality)
  from th 5 have b: "GoalLink firstCandidate (publicOnly ?f) exampleGoal (snd ?r)
      = ((None, None), snd ?r)"
    by blast
  show ?thesis using a b by blast
qed

text \<open>
  C3. The claim is three attempts with a backoff of 30 and 60 seconds when the OAuth
  fetcher is unavailable and the public fetcher always fails with the blocked error.
  What \<open>searchForGoal\<close> does: one attempt (the primary and the secondary query) and no
  \<open>time.Sleep\<close>, although the error is one the retry loop would retry; it returns no link
  and a nil error, and so does \<open>GoalLink\<close> for a goal with no cache entry, after the same
  two queries.
\<close>

theorem searchForGoal_blocked_one_attempt:
  assumes "case oauthFetcher c of None \<Rightarrow> True | Some oa \<Rightarrow> \<not> IsAvailable oa (world s)"
    and "\<forall>query limit matchTime w. fst (publicFetcher c query limit matchTime w) = Inl errBlocked"
    and "findBestMatch [] goal = None"
  shows "fst (searchForGoal findBestMatch c goal s) = (None, None)
    \<and> trace (snd (searchForGoal findBestMatch c goal s)) =
        trace s @ [Searched Public (query1 goal) 15 (MatchTime goal),
                   Searched Public (query2 goal) 15 (MatchTime goal)]
    \<and> errBlocked = ''reddit is blocking requests (CAPTCHA/bot detection)''
    \<and> retryable errBlocked
    \<and> maxRetries = 3 \<and> baseDelay = 30000000000
    \<and> (cache_Get (cache s) (goalKey goal) = None \<longrightarrow>
        fst (GoalLink findBestMatch c goal s) = (None, None)
        \<and> trace (snd (GoalLink findBestMatch c goal s)) =
            trace s @ [Searched Public (query1 goal) 15 (MatchTime goal),
                       Searched Public (query2 goal) 15 (MatchTime goal)])"
proof -
  obtain w1 where 1: "publicFetcher c (query1 goal) 15 (MatchTime goal) (world s) = (Inl errBlocked, w1)"
    using assms(2) by (metis prod.collapse)
  obtain w2 where 2: "publicFetcher c (query2 goal) 15 (MatchTime goal) w1 = (Inl errBlocked, w2)"
    using assms(2) by (metis prod.collapse)
  have r: "searchForGoal findBestMatch c goal s =
      ((None, None),
       s\<lparr>world := w2, trace := trace s @ [Searched Public (query1 goal) 15 (MatchTime goal),
                                          Searched Public (query2 goal) 15 (MatchTime goal)]\<rparr>)"
    using assms(1,3)
    by (simp add: searchForGoal_once
          searchForGoalOnce_both_fail[where fetcher = "publicFetcher c", OF 1 2]
          split: option.splits)
  have a: "fst (searchForGoal findBestMatch c goal s) = (None, None)"
    and b: "trace (snd (searchForGoal findBestMatch c goal s)) =
        trace s @ [Searched Public (query1 goal) 15 (MatchTime goal),
                   Searched Public (query2 goal) 15 (MatchTime goal)]"
    by (simp_all add: r)
  have d: "errBlocked = ''reddit is blocking requests (CAPTCHA/bot detection)''"
    by (simp add: errBlocked_def)
  have e: "maxRetries = 3" "baseDelay = 30000000000"
    by (simp_all add: maxRetries_def baseDelay_def time_Second_def)
  have g: "fst (GoalLink findBestMatch c goal s) = (None, None)
        \<and> trace (snd (GoalLink findBestMatch c goal s)) =
            trace s @ [Searched Public (query1 goal) 15 (MatchTime goal),
                       Searched Public (query2 goal) 15 (MatchTime goal)]"
    if "cache_Get (cache s) (goalKey goal) = None"
    using that by (simp add: GoalLink_uncached r)
  show ?thesis using a b d e g retryable_errBlocked by blast
qed

theorem searchForGoal_blocked_one_attempt_witness:
  "searchForGoal firstCandidate
      (publicOnly (failingFetcher ''reddit is blocking requests (CAPTCHA/bot detection)''))
      exampleGoal emptyState
     = ((None, None),
        emptyState\<lparr>trace := [Searched Public (''Arsenal Chelsea 23'' @ [CHR 0x27]) 15 1700000000000000000,
                              Searched Public (''Arsenal 23'' @ [CHR 0x27]) 15 1700000000000000000]\<rparr>)"
proof -
  let ?c = "publicOnly (failingFetcher ''reddit is blocking requests (CAPTCHA/bot detection)'')"
  have 1: "case oauthFetcher ?c of None \<Rightarrow> True | Some oa \<Rightarrow> \<not> IsAvailable oa (world emptyState)"
    by (simp add: publicOnly_def)
  have 2: "\<forall>query limit matchTime w.
      fst (publicFetcher ?c query limit matchTime w) = Inl errBlocked"
    by (simp add: publicOnly_def failingFetcher_def errBlocked_def)
  have 3: "firstCandidate [] exampleGoal = None" by (simp add: firstCandidate_def)
  have q1: "query1 exampleGoal = ''Arsenal Chelsea 23'' @ [CHR 0x27]"
    by (simp add: query1_def exampleGoal_def itoa_def nat_digits.simps)
  have q2: "query2 exampleGoal = ''Arsenal 23'' @ [CHR 0x27]"
    by (simp add: query2_def exampleGoal_def itoa_def nat_digits.simps)
  have mt: "MatchTime exampleGoal = 1700000000000000000"
    by (simp add: exampleGoal_def time_Second_def)
  have w: "world (snd (searchForGoal firstCandidate ?c exampleGoal emptyState)) = world emptyState"
    and c: "cache (snd (searchForGoal firstCandidate ?c exampleGoal emptyState)) = cache emptyState"
    by (simp_all add: searchForGoal_once publicOnly_def searchForGoalOnce_def Search_def failingFetcher_def
          firstCandidate_def Let_def)
  have t: "trace emptyState = []" by (simp add: emptyState_def)
  note th = searchForGoal_blocked_one_attempt [where findBestMatch = firstCandidate
        and goal = exampleGoal and s = emptyState and c = ?c, OF 1 2 3]
  from th have a: "fst (searchForGoal firstCandidate ?c exampleGoal emptyState) = (None, None)"
    by blast
  have b: "trace (snd (searchForGoal firstCandidate ?c exampleGoal emptyState)) =
      [Searched Public (''Arsenal Chelsea 23'' @ [CHR 0x27]) 15 1700000000000000000,
       Searched Public (''Arsenal 23'' @ [CHR 0x27]) 15 1700000000000000000]"
    unfolding th[THEN conjunct2, THEN conjunct1] by (simp add: t q1 q2 mt)
  show ?thesis
    using a b w c
    by (cases "searchForGoal firstCandidate ?c exampleGoal emptyState")
       (auto simp: state.equality)
qed

subsection \<open>Resolving many goals\<close>

lemma resolveBatch_resolveEach:
  "resolveBatch findBestMatch c gs results s = resolveEach findBestMatch c gs results s"
  by (induction gs arbitrary: results s) (auto split: prod.splits option.splits)

lemma chunks_nonempty:
  "xs \<noteq> [] \<Longrightarrow> 0 < n \<Longrightarrow> chunks n xs = take n xs # chunks n (drop n xs)"
  by (cases xs) (simp_all add: chunks.simps(2))

lemma batchLoop_step:
  assumes "i < length xs"
  shows "batchLoop findBestMatch c xs i results s =
     (case resolveBatch findBestMatch c (take BatchSize (drop i xs)) results
             (if 0 < i then Sleep BatchDelay s else s) of
        (r1, s1) \<Rightarrow> batchLoop findBestMatch c xs (i + BatchSize) r1 s1)"
proof -
  have tk: "take ((if length xs < i + BatchSize then length xs else i + BatchSize) - i) (drop i xs)
      = take BatchSize (drop i xs)"
    by auto
  show ?thesis
    by (subst batchLoop.simps) (simp only: assms if_True Let_def tk)
qed

lemma batchLoop_done:
  "\<not> i < length xs \<Longrightarrow> batchLoop findBestMatch c xs i results s = (results, s)"
  by (subst batchLoop.simps) simp

lemma batchLoop_later:
  "0 < i \<Longrightarrow> batchLoop findBestMatch c xs i results s =
     laterBatches findBestMatch c (chunks BatchSize (drop i xs)) results s"
proof (induction findBestMatch c xs i results s rule: batchLoop.induct)
  case (1 f c xs i results s)
  show ?case
  proof (cases "i < length xs")
    case False
    then show ?thesis by (simp add: batchLoop_done)
  next
    case True
    then have ne: "drop i xs \<noteq> []" by simp
    have pos: "0 < BatchSize" by (simp add: BatchSize_def)
    have dr: "drop BatchSize (drop i xs) = drop (i + BatchSize) xs"
      by (simp add: add.commute)
    obtain r1 s1 where rb:
      "resolveBatch f c (take BatchSize (drop i xs)) results (Sleep BatchDelay s) = (r1, s1)"
      by (cases "resolveBatch f c (take BatchSize (drop i xs)) results (Sleep BatchDelay s)")
    have tk: "take ((if length xs < i + BatchSize then length xs else i + BatchSize) - i) (drop i xs)
        = take BatchSize (drop i xs)"
      by auto
    have "batchLoop f c xs (i + BatchSize) r1 s1 =
        laterBatches f c (chunks BatchSize (drop (i + BatchSize) xs)) r1 s1"
    proof (rule "1.IH"[OF True refl refl _ refl])
      show "(r1, s1) = resolveBatch f c
          (take ((if length xs < i + BatchSize then length xs else i + BatchSize) - i) (drop i xs))
          results (if 0 < i then Sleep BatchDelay s else s)"
        using rb "1.prems" by (simp only: tk if_True)
      show "0 < i + BatchSize" using pos by simp
    qed
    then have "batchLoop f c xs (i + BatchSize) r1 s1 =
        laterBatches f c (chunks BatchSize (drop BatchSize (drop i xs))) r1 s1"
      by (simp only: dr)
    then show ?thesis
      using rb "1.prems"
      by (simp add: batchLoop_step[OF True] chunks_nonempty[OF ne pos]
            resolveBatch_resolveEach[symmetric] del: drop_drop)
  qed
qed

lemma batchLoop_resolveBatches:
  "batchLoop findBestMatch c xs 0 results s =
     resolveBatches findBestMatch c (chunks BatchSize xs) results s"
proof (cases xs)
  case Nil
  then show ?thesis by (simp add: batchLoop_done resolveBatches_def)
next
  case (Cons x xs')
  then have ne: "xs \<noteq> []" and lt: "0 < length xs" by simp_all
  have pos: "0 < BatchSize" by (simp add: BatchSize_def)
  show ?thesis
    using pos
    by (simp add: batchLoop_step[OF lt] chunks_nonempty[OF ne pos] resolveBatches_def
          batchLoop_later resolveBatch_resolveEach[symmetric] split: prod.splits)
qed

lemma filter_swap: "filter P (filter Q ys) = filter Q (filter P ys)"
  by (induction ys) auto

lemma dedupe_filter:
  "filter (\<lambda>h. P (goalKey h)) (dedupeByKey xs) = dedupeByKey (filter (\<lambda>h. P (goalKey h)) xs)"
proof (induction xs)
  case Nil
  then show ?case by simp
next
  case (Cons x xs)
  let ?P = "\<lambda>h. P (goalKey h)" and ?Q = "\<lambda>h. goalKey h \<noteq> goalKey x"
  show ?case
  proof (cases "P (goalKey x)")
    case True
    have "filter ?P (dedupeByKey (x # xs)) = x # filter ?P (filter ?Q (dedupeByKey xs))"
      using True by simp
    also have "\<dots> = x # filter ?Q (filter ?P (dedupeByKey xs))"
      by (simp only: filter_swap)
    also have "\<dots> = x # filter ?Q (dedupeByKey (filter ?P xs))"
      by (simp only: Cons.IH)
    also have "\<dots> = dedupeByKey (filter ?P (x # xs))"
      using True by simp
    finally show ?thesis .
  next
    case False
    have "filter ?P (dedupeByKey (x # xs)) = filter ?P (filter ?Q (dedupeByKey xs))"
      using False by simp
    also have "\<dots> = filter ?P (dedupeByKey xs)"
      using False by (auto intro: filter_cong)
    also have "\<dots> = dedupeByKey (filter ?P (x # xs))"
      using False Cons.IH by simp
    finally show ?thesis .
  qed
qed

lemma collectGoals_eq:
  "collectGoals ca goals seen results uncached =
     (results ++ cachedPositive ca (filter (\<lambda>g. \<not> seen (goalKey g)) goals),
      uncached @ notCached ca (dedupeByKey (filter (\<lambda>g. \<not> seen (goalKey g)) goals)))"
proof (induction goals arbitrary: seen results uncached)
  case Nil
  have "cachedPositive ca [] = Map.empty" by (rule ext) (simp add: cachedPositive_def)
  then show ?case by (simp add: notCached_def)
next
  case (Cons goal goals)
  let ?k = "goalKey goal"
  let ?F = "filter (\<lambda>g. \<not> seen (goalKey g)) goals"
  let ?Q = "\<lambda>h. goalKey h \<noteq> ?k"
  have flt: "filter (\<lambda>g. \<not> (seen(?k := True)) (goalKey g)) goals = filter ?Q ?F"
    by (auto intro: filter_cong)
  have dd: "dedupeByKey (filter ?Q ?F) = filter ?Q (dedupeByKey ?F)"
    using dedupe_filter[of "\<lambda>k. k \<noteq> ?k" ?F] by simp
  have ih: "collectGoals ca goals (seen(?k := True)) r u =
      (r ++ cachedPositive ca (filter ?Q ?F), u @ notCached ca (filter ?Q (dedupeByKey ?F)))"
    for r u
    using Cons.IH[of "seen(?k := True)" r u] unfolding flt dd .
  show ?case
  proof (cases "seen ?k")
    case True
    then show ?thesis using Cons.IH by simp
  next
    case False
    show ?thesis
    proof (cases "cache_Get ca ?k")
      case None
      have m: "cachedPositive ca (filter ?Q ?F) = cachedPositive ca (goal # ?F)"
        using None by (rule_tac ext) (auto simp: cachedPositive_def)
      show ?thesis using False None
        by (simp add: ih m Let_def del: filter_filter) (simp add: notCached_def)
    next
      case (Some link)
      show ?thesis
      proof (cases link)
        case NotFound
        have m: "cachedPositive ca (filter ?Q ?F) = cachedPositive ca (goal # ?F)"
          using Some NotFound by (rule_tac ext) (auto simp: cachedPositive_def)
        show ?thesis using False Some NotFound
          by (simp add: ih m Let_def del: filter_filter) (simp add: notCached_def)
      next
        case (Found l)
        have m: "results(?k \<mapsto> l) ++ cachedPositive ca (filter ?Q ?F)
            = results ++ cachedPositive ca (goal # ?F)"
        proof (rule ext)
          fix k
          show "(results(?k \<mapsto> l) ++ cachedPositive ca (filter ?Q ?F)) k
              = (results ++ cachedPositive ca (goal # ?F)) k"
          proof (cases "k = ?k")
            case True
            have "cachedPositive ca (filter ?Q ?F) ?k = None"
              by (auto simp: cachedPositive_def)
            moreover have "cachedPositive ca (goal # ?F) ?k = Some l"
              using Some Found by (simp add: cachedPositive_def)
            ultimately show ?thesis using True by (simp add: map_add_def)
          next
            case False
            have "cachedPositive ca (filter ?Q ?F) k = cachedPositive ca (goal # ?F) k"
              using False by (auto simp: cachedPositive_def)
            then show ?thesis using False
              by (simp add: map_add_def del: filter_filter split: option.splits)
          qed
        qed
        show ?thesis using False Some Found
          by (simp add: ih m Let_def del: filter_filter) (simp add: notCached_def)
      qed
    qed
  qed
qed

text \<open>
  C5. \<open>GoalLinks\<close> is the pipeline of the specification: it de-duplicates the goals by
  key (match id and minute), the first occurrence winning; it takes the cached links of
  the input into the result and resolves no goal whose key has a cache entry, positive or
  \<open>NotFound\<close>; it resolves the others in batches of five, with a sleep of two seconds
  before every batch but the first; it goes on after a goal that gives an error or no
  link; and the map it returns holds the keys that resolved to a link.
\<close>

theorem GoalLinks_resolveMany:
  "GoalLinks findBestMatch c goals s = resolveMany findBestMatch c goals s
   \<and> resolveMany findBestMatch c goals s =
       resolveBatches findBestMatch c
         (chunks 5 (notCached (cache s) (dedupeByKey goals)))
         (cachedPositive (cache s) goals) s
   \<and> goalKey goal = \<lparr>key_MatchID = MatchID goal, key_Minute = Minute goal\<rparr>
   \<and> BatchSize = 5 \<and> BatchDelay = 2000000000"
  by (simp add: GoalLinks_def resolveMany_def collectGoals_eq batchLoop_resolveBatches
        BatchSize_def BatchDelay_def time_Second_def goalKey_def)

lemma dedupe_many:
  "dedupeByKey manyGoals =
     [goalAt 1, goalAt 2, goalAt 3, goalAt 4, goalAt 5, goalAt 6, goalAt 7, goalAt 8, goalAt 9]"
  by (simp add: manyGoals_def goalKey_def goalAt_def exampleGoal_def)

lemma notCached_many:
  "notCached (cache mixedState)
     [goalAt 1, goalAt 2, goalAt 3, goalAt 4, goalAt 5, goalAt 6, goalAt 7, goalAt 8, goalAt 9]
   = [goalAt 1, goalAt 3, goalAt 5, goalAt 6, goalAt 7, goalAt 8, goalAt 9]"
  by (simp add: notCached_def mixedState_def cache_Get_def goalKey_def goalAt_def exampleGoal_def)

lemma GoalLink_flaky_found:
  assumes "cache_Get (cache s) (goalKey g) = None"
    and "query1 g \<noteq> ''Arsenal Chelsea 3'' @ [CHR 0x27]" "query1 g \<noteq> ''Arsenal 3'' @ [CHR 0x27]"
  shows "GoalLink firstCandidate (publicOnly flakyFetcher) g s =
     ((Some (mkGoalLink g exampleHit (clock (world s))), None),
      s\<lparr>trace := trace s @ [Searched Public (query1 g) 15 (MatchTime g)],
        cache := snd (cache_Set (cache s) (mkGoalLink g exampleHit (clock (world s))))\<rparr>)"
  using assms
  by (simp add: GoalLink_uncached searchForGoal_once publicOnly_def searchForGoalOnce_def
        Search_def flakyFetcher_def firstCandidate_def Let_def)

lemma GoalLink_flaky_fail:
  assumes "cache_Get (cache s) (goalKey g) = None"
    and "query1 g = ''Arsenal Chelsea 3'' @ [CHR 0x27]" "query2 g = ''Arsenal 3'' @ [CHR 0x27]"
  shows "GoalLink firstCandidate (publicOnly flakyFetcher) g s =
     ((None, None),
      s\<lparr>trace := trace s @ [Searched Public (query1 g) 15 (MatchTime g),
                             Searched Public (query2 g) 15 (MatchTime g)],
        cache := snd (cache_SetNotFound (cache s) (MatchID g) (Minute g))\<rparr>)"
  using assms
  by (simp add: GoalLink_uncached searchForGoal_once publicOnly_def searchForGoalOnce_def
        Search_def flakyFetcher_def firstCandidate_def Let_def)

lemma queries_goalAt:
  "query1 (goalAt 1) = ''Arsenal Chelsea 1'' @ [CHR 0x27]"
  "query1 (goalAt 3) = ''Arsenal Chelsea 3'' @ [CHR 0x27]"
  "query2 (goalAt 3) = ''Arsenal 3'' @ [CHR 0x27]"
  "query1 (goalAt 5) = ''Arsenal Chelsea 5'' @ [CHR 0x27]"
  "query1 (goalAt 6) = ''Arsenal Chelsea 6'' @ [CHR 0x27]"
  "query1 (goalAt 7) = ''Arsenal Chelsea 7'' @ [CHR 0x27]"
  "query1 (goalAt 8) = ''Arsenal Chelsea 8'' @ [CHR 0x27]"
  "query1 (goalAt 9) = ''Arsenal Chelsea 9'' @ [CHR 0x27]"
  by (simp_all add: query1_def query2_def goalAt_def exampleGoal_def itoa_def nat_digits.simps)

lemma goalAt_fields:
  "MatchID (goalAt n) = 555" "Minute (goalAt n) = n" "MatchTime (goalAt n) = 1700000000000000000"
  "goalKey (goalAt n) = \<lparr>key_MatchID = 555, key_Minute = n\<rparr>"
  by (simp_all add: goalAt_def exampleGoal_def goalKey_def time_Second_def)

lemma mixedState_fields:
  "world mixedState = \<lparr>clock = 1700000000000000000, net = ()\<rparr>" "trace mixedState = []"
  "cache mixedState =
       \<lparr>entries = [\<lparr>key_MatchID = 555, key_Minute = 2\<rparr> \<mapsto> NotFound,
                   \<lparr>key_MatchID = 555, key_Minute = 4\<rparr> \<mapsto> Found cachedLink],
        writable = True\<rparr>"
  by (simp_all add: mixedState_def emptyState_def time_Second_def)

theorem GoalLinks_resolveMany_witness:
  "trace (snd (GoalLinks firstCandidate (publicOnly flakyFetcher) manyGoals mixedState))
     = [Searched Public (''Arsenal Chelsea 1'' @ [CHR 0x27]) 15 1700000000000000000,
        Searched Public (''Arsenal Chelsea 3'' @ [CHR 0x27]) 15 1700000000000000000,
        Searched Public (''Arsenal 3'' @ [CHR 0x27]) 15 1700000000000000000,
        Searched Public (''Arsenal Chelsea 5'' @ [CHR 0x27]) 15 1700000000000000000,
        Searched Public (''Arsenal Chelsea 6'' @ [CHR 0x27]) 15 1700000000000000000,
        Searched Public (''Arsenal Chelsea 7'' @ [CHR 0x27]) 15 1700000000000000000,
        Slept 2000000000,
        Searched Public (''Arsenal Chelsea 8'' @ [CHR 0x27]) 15 1700000000000000000,
        Searched Public (''Arsenal Chelsea 9'' @ [CHR 0x27]) 15 1700000000000000000]
   \<and> fst (GoalLinks firstCandidate (publicOnly flakyFetcher) manyGoals mixedState)
     = [\<lparr>key_MatchID = 555, key_Minute = 4\<rparr> \<mapsto> cachedLink,
        \<lparr>key_MatchID = 555, key_Minute = 1\<rparr> \<mapsto> linkAt 1 1700000000000000000,
        \<lparr>key_MatchID = 555, key_Minute = 5\<rparr> \<mapsto> linkAt 5 1700000000000000000,
        \<lparr>key_MatchID = 555, key_Minute = 6\<rparr> \<mapsto> linkAt 6 1700000000000000000,
        \<lparr>key_MatchID = 555, key_Minute = 7\<rparr> \<mapsto> linkAt 7 1700000000000000000,
        \<lparr>key_MatchID = 555, key_Minute = 8\<rparr> \<mapsto> linkAt 8 1700000002000000000,
        \<lparr>key_MatchID = 555, key_Minute = 9\<rparr> \<mapsto> linkAt 9 1700000002000000000]"
proof -
  let ?c = "publicOnly flakyFetcher"
  note r = GoalLinks_resolveMany [of firstCandidate ?c manyGoals mixedState, THEN conjunct1]
  have cp: "cachedPositive (cache mixedState) manyGoals =
      [\<lparr>key_MatchID = 555, key_Minute = 4\<rparr> \<mapsto> cachedLink]"
    by (rule ext)
       (auto simp add: cachedPositive_def mixedState_fields cache_Get_def manyGoals_def goalAt_fields)
  have e: "resolveMany firstCandidate ?c manyGoals mixedState =
      ([\<lparr>key_MatchID = 555, key_Minute = 4\<rparr> \<mapsto> cachedLink,
        \<lparr>key_MatchID = 555, key_Minute = 1\<rparr> \<mapsto> linkAt 1 1700000000000000000,
        \<lparr>key_MatchID = 555, key_Minute = 5\<rparr> \<mapsto> linkAt 5 1700000000000000000,
        \<lparr>key_MatchID = 555, key_Minute = 6\<rparr> \<mapsto> linkAt 6 1700000000000000000,
        \<lparr>key_MatchID = 555, key_Minute = 7\<rparr> \<mapsto> linkAt 7 1700000000000000000,
        \<lparr>key_MatchID = 555, key_Minute = 8\<rparr> \<mapsto> linkAt 8 1700000002000000000,
        \<lparr>key_MatchID = 555, key_Minute = 9\<rparr> \<mapsto> linkAt 9 1700000002000000000],
       snd (resolveMany firstCandidate ?c manyGoals mixedState))"
    apply (simp add: resolveMany_def dedupe_many notCached_many cp chunks.simps resolveBatches_def)
    apply (simp add: GoalLink_flaky_found GoalLink_flaky_fail queries_goalAt goalAt_fields
        mixedState_fields cache_Get_def cache_Set_def cache_SetNotFound_def mkGoalLink_def
        Sleep_def BatchDelay_def time_Second_def linkAt_def exampleHit_def)
    done
  have t: "trace (snd (resolveMany firstCandidate ?c manyGoals mixedState))
     = [Searched Public (''Arsenal Chelsea 1'' @ [CHR 0x27]) 15 1700000000000000000,
        Searched Public (''Arsenal Chelsea 3'' @ [CHR 0x27]) 15 1700000000000000000,
        Searched Public (''Arsenal 3'' @ [CHR 0x27]) 15 1700000000000000000,
        Searched Public (''Arsenal Chelsea 5'' @ [CHR 0x27]) 15 1700000000000000000,
        Searched Public (''Arsenal Chelsea 6'' @ [CHR 0x27]) 15 1700000000000000000,
        Searched Public (''Arsenal Chelsea 7'' @ [CHR 0x27]) 15 1700000000000000000,
        Slept 2000000000,
        Searched Public (''Arsenal Chelsea 8'' @ [CHR 0x27]) 15 1700000000000000000,
        Searched Public (''Arsenal Chelsea 9'' @ [CHR 0x27]) 15 1700000000000000000]"
    apply (simp add: resolveMany_def dedupe_many notCached_many cp chunks.simps resolveBatches_def)
    apply (simp add: GoalLink_flaky_found GoalLink_flaky_fail queries_goalAt goalAt_fields
        mixedState_fields cache_Get_def cache_Set_def cache_SetNotFound_def mkGoalLink_def
        Sleep_def BatchDelay_def time_Second_def linkAt_def exampleHit_def)
    done
  show ?thesis unfolding r using t e by (metis fst_conv)
qed

subsection \<open>The rate limiter\<close>

lemma length_userAgents: "length userAgents = 5"
  by (simp add: userAgents_def)

lemma distinct_userAgents: "distinct userAgents"
  by (simp add: userAgents_def)

lemma getNextUserAgent_in_range:
  assumes "userAgentIndex r = int i" "i < 5"
  shows "getNextUserAgent r = Some (userAgents ! i, r\<lparr>userAgentIndex := int (Suc i mod 5)\<rparr>)"
proof -
  have "int (Suc i mod 5) = (int i + 1) mod 5"
    by (simp add: zmod_int ac_simps)
  then have "(int i + 1) smod 5 = int (Suc i mod 5)"
    by (simp add: signed_modulo_int_def)
  then show ?thesis
    using assms by (simp add: getNextUserAgent_def length_userAgents)
qed

lemma nextUserAgents_from:
  "userAgentIndex r = int i \<Longrightarrow> i < 5 \<Longrightarrow>
   nextUserAgents n r = Some (map (\<lambda>k. userAgents ! ((i + k) mod 5)) [0..<n])"
proof (induction n arbitrary: r i)
  case 0
  then show ?case by simp
next
  case (Suc n)
  let ?r' = "r\<lparr>userAgentIndex := int (Suc i mod 5)\<rparr>"
  have ih: "nextUserAgents n ?r' = Some (map (\<lambda>k. userAgents ! ((Suc i mod 5 + k) mod 5)) [0..<n])"
    by (rule Suc.IH) simp_all
  have shift: "map (\<lambda>k. userAgents ! ((i + k) mod 5)) [0..<Suc n]
      = userAgents ! i # map (\<lambda>k. userAgents ! ((Suc i mod 5 + k) mod 5)) [0..<n]"
  proof -
    have "[0..<Suc n] = 0 # map Suc [0..<n]"
      by (simp add: upt_conv_Cons map_Suc_upt del: upt_Suc)
    moreover have "(i + Suc k) mod 5 = (Suc i mod 5 + k) mod 5" for k
      by (simp add: mod_add_left_eq)
    ultimately show ?thesis using Suc.prems(2) by (simp add: comp_def del: upt_Suc)
  qed
  show ?case
    using getNextUserAgent_in_range[OF Suc.prems] ih shift by simp
qed

text \<open>
  C9. The rotation is round-robin: from a fresh limiter, the k-th call of
  \<open>getNextUserAgent\<close> (counting from 0) returns \<open>userAgents[k mod 5]\<close>, and no call
  panics; a call at index \<open>i\<close> returns \<open>userAgents[i]\<close> and moves the index to
  \<open>(i + 1) mod 5\<close>. The five agents are distinct, so five calls in a row, from the k-th on,
  give each of them once, in the order of the list rotated to its element \<open>k mod 5\<close>.
\<close>

theorem getNextUserAgent_round_robin:
  "newRateLimiter R = Some r \<Longrightarrow>
   nextUserAgents n r = Some (map (\<lambda>k. userAgents ! (k mod 5)) [0..<n])
   \<and> userAgentIndex r = 0
   \<and> (\<forall>r' i. userAgentIndex r' = int i \<and> i < 5 \<longrightarrow>
         getNextUserAgent r' = Some (userAgents ! i, r'\<lparr>userAgentIndex := int ((i + 1) mod 5)\<rparr>))
   \<and> userAgents =
       [''golazo:v1.0.0 (by /u/golazo_app)'',
        ''Mozilla/5.0 (Macintosh; Intel Mac OS X 10_15_7) AppleWebKit/537.36 (KHTML, like Gecko) Chrome/119.0.0.0 Safari/537.36'',
        ''Mozilla/5.0 (Windows NT 10.0; Win64; x64) AppleWebKit/537.36 (KHTML, like Gecko) Chrome/119.0.0.0 Safari/537.36'',
        ''Mozilla/5.0 (X11; Linux x86_64) AppleWebKit/537.36 (KHTML, like Gecko) Chrome/119.0.0.0 Safari/537.36'',
        ''Mozilla/5.0 (Macintosh; Intel Mac OS X 10_15_7) AppleWebKit/605.1.15 (KHTML, like Gecko) Version/17.1 Safari/605.1.15'']
   \<and> length userAgents = 5 \<and> distinct userAgents
   \<and> map (\<lambda>j. userAgents ! (j mod 5)) [k..<k + 5] = rotate (k mod 5) userAgents"
proof (intro conjI allI impI)
  assume "newRateLimiter R = Some r"
  then show i0: "userAgentIndex r = 0"
    by (auto simp: newRateLimiter_def split: if_splits)
  then have "userAgentIndex r = int 0" by simp
  from nextUserAgents_from[OF this, of n]
  show "nextUserAgents n r = Some (map (\<lambda>k. userAgents ! (k mod 5)) [0..<n])" by simp
next
  fix r' :: rateLimiter and i
  assume "userAgentIndex r' = int i \<and> i < 5"
  then show "getNextUserAgent r' =
      Some (userAgents ! i, r'\<lparr>userAgentIndex := int ((i + 1) mod 5)\<rparr>)"
    using getNextUserAgent_in_range[of r' i] by simp
next
  show "userAgents =
       [''golazo:v1.0.0 (by /u/golazo_app)'',
        ''Mozilla/5.0 (Macintosh; Intel Mac OS X 10_15_7) AppleWebKit/537.36 (KHTML, like Gecko) Chrome/119.0.0.0 Safari/537.36'',
        ''Mozilla/5.0 (Windows NT 10.0; Win64; x64) AppleWebKit/537.36 (KHTML, like Gecko) Chrome/119.0.0.0 Safari/537.36'',
        ''Mozilla/5.0 (X11; Linux x86_64) AppleWebKit/537.36 (KHTML, like Gecko) Chrome/119.0.0.0 Safari/537.36'',
        ''Mozilla/5.0 (Macintosh; Intel Mac OS X 10_15_7) AppleWebKit/605.1.15 (KHTML, like Gecko) Version/17.1 Safari/605.1.15'']"
    by (simp add: userAgents_def)
next
  show "length userAgents = 5" by (rule length_userAgents)
  show "distinct userAgents" by (rule distinct_userAgents)
  show "map (\<lambda>j. userAgents ! (j mod 5)) [k..<k + 5] = rotate (k mod 5) userAgents"
  proof (rule nth_equalityI)
    show "length (map (\<lambda>j. userAgents ! (j mod 5)) [k..<k + 5]) = length (rotate (k mod 5) userAgents)"
      by (simp add: length_userAgents)
    fix i assume "i < length (map (\<lambda>j. userAgents ! (j mod 5)) [k..<k + 5])"
    then have i: "i < 5" by simp
    then show "map (\<lambda>j. userAgents ! (j mod 5)) [k..<k + 5] ! i = rotate (k mod 5) userAgents ! i"
      by (simp add: nth_rotate length_userAgents mod_add_left_eq)
  qed
qed

lemma newRateLimiter_5: "newRateLimiter 5 = Some publicLimiter"
  by (simp add: newRateLimiter_def publicLimiter_def time_Minute_def time_Second_def
        signed_divide_int_def)

theorem getNextUserAgent_round_robin_witness:
  "newRateLimiter 5 = Some publicLimiter
   \<and> nextUserAgents 7 publicLimiter = Some
       [''golazo:v1.0.0 (by /u/golazo_app)'',
        ''Mozilla/5.0 (Macintosh; Intel Mac OS X 10_15_7) AppleWebKit/537.36 (KHTML, like Gecko) Chrome/119.0.0.0 Safari/537.36'',
        ''Mozilla/5.0 (Windows NT 10.0; Win64; x64) AppleWebKit/537.36 (KHTML, like Gecko) Chrome/119.0.0.0 Safari/537.36'',
        ''Mozilla/5.0 (X11; Linux x86_64) AppleWebKit/537.36 (KHTML, like Gecko) Chrome/119.0.0.0 Safari/537.36'',
        ''Mozilla/5.0 (Macintosh; Intel Mac OS X 10_15_7) AppleWebKit/605.1.15 (KHTML, like Gecko) Version/17.1 Safari/605.1.15'',
        ''golazo:v1.0.0 (by /u/golazo_app)'',
        ''Mozilla/5.0 (Macintosh; Intel Mac OS X 10_15_7) AppleWebKit/537.36 (KHTML, like Gecko) Chrome/119.0.0.0 Safari/537.36'']"
proof -
  have u: "[0..<7] = [0, 1, 2, 3, 4, 5, 6]" by (simp add: upt_rec)
  note th = getNextUserAgent_round_robin [OF newRateLimiter_5, of 7 0, THEN conjunct1]
  show ?thesis
    unfolding th by (simp add: newRateLimiter_5 u) (simp add: userAgents_def)
qed


















subsection \<open>The token of the OAuth client\<close>

lemma storeToken_keeps:
  "tokenCalls (snd (storeToken k r s)) = tokenCalls s"
  "oauth_rateLimiter (client (snd (storeToken k r s))) = oauth_rateLimiter (client s)"
  by (simp_all add: storeToken_def split: prod.splits RWMutex.splits)

lemma authenticate_keeps:
  "tokenCalls (snd (authenticate p s)) = tokenCalls s @ [AuthenticateCall]"
  "oauth_rateLimiter (client (snd (authenticate p s))) = oauth_rateLimiter (client s)"
  by (simp_all add: authenticate_def Let_def storeToken_keeps split: prod.splits sum.splits)

lemma refreshToken_keeps:
  "tokenCalls (snd (refreshToken p s)) = tokenCalls s @ [RefreshCall]"
  "oauth_rateLimiter (client (snd (refreshToken p s))) = oauth_rateLimiter (client s)"
  by (simp_all add: refreshToken_def Let_def storeToken_keeps split: prod.splits sum.splits)

lemma deferUnlock_keeps:
  "tokenCalls (snd (deferUnlock r)) = tokenCalls (snd r)"
  "oauth_rateLimiter (client (snd (deferUnlock r))) = oauth_rateLimiter (client (snd r))"
  by (simp_all add: deferUnlock_def split: prod.splits outcome.splits)

text \<open>Whether the reply to the refresh request makes \<open>refreshToken\<close> return an error.\<close>

lemma refreshToken_fails_iff:
  "(\<exists>err. fst (refreshToken p s) = Returns (Some err)) =
     (case fst (Do p (tokenRequest (client s)
               (''grant_type=refresh_token&refresh_token=''
                  @ QueryEscape p (refreshTokenValue (client s)))) (oworld s)) of
        Inl err \<Rightarrow> True
      | Inr resp \<Rightarrow> StatusCode resp \<noteq> 200 \<or> isl (decodeToken p resp))"
  by (auto simp add: refreshToken_def Let_def storeToken_def
           split: prod.splits sum.splits RWMutex.splits)

lemma tokenRequest_locked [simp]:
  "tokenRequest (c\<lparr>tokenMutex := m\<rparr>) body = tokenRequest c body"
  by (simp add: tokenRequest_def tokenUserAgent_def)

lemma ensureValidToken_limiter:
  "oauth_rateLimiter (client (snd (ensureValidToken p s))) = oauth_rateLimiter (client s)"
proof -
  have r: "oauth_rateLimiter (client (snd (case refreshToken p s1 of
                               (Returns (Some err), s2) \<Rightarrow> authenticate p s2
                             | (Returns None, s2) \<Rightarrow> (Returns None, s2)
                             | (Panics, s2) \<Rightarrow> (Panics, s2)
                             | (Deadlocks, s2) \<Rightarrow> (Deadlocks, s2)))) = oauth_rateLimiter (client s1)"
    for s1 :: "'a ostate"
    using refreshToken_keeps(2)[of p s1]
    by (auto simp add: authenticate_keeps split: prod.splits outcome.splits option.splits)
  show ?thesis
    by (simp add: ensureValidToken_def Let_def deferUnlock_keeps authenticate_keeps r
          split: RWMutex.splits)
qed

lemma ensureValidToken_fresh:
  assumes "tokenMutex (client s) = Unlocked" "accessToken (client s) \<noteq> []"
    and "clock (oworld s) < tokenExpiry (client s) - 300000000000"
  shows "ensureValidToken p s = (Returns None, s)"
  using assms by (simp add: ensureValidToken_def time_Minute_def time_Second_def)

lemma ensureValidToken_calls:
  assumes u: "tokenMutex (client s) = Unlocked"
  shows "tokenCalls (snd (ensureValidToken p s)) =
     tokenCalls s @
       (if accessToken (client s) = [] \<or> tokenExpiry (client s) - clock (oworld s) < 300000000000
        then (if refreshTokenValue (client s) \<noteq> []
              then (if (case fst (Do p (tokenRequest (client s)
                               (''grant_type=refresh_token&refresh_token=''
                                  @ QueryEscape p (refreshTokenValue (client s)))) (oworld s)) of
                          Inl err \<Rightarrow> True
                        | Inr resp \<Rightarrow> StatusCode resp \<noteq> 200 \<or> isl (decodeToken p resp))
                    then [RefreshCall, AuthenticateCall] else [RefreshCall])
              else [AuthenticateCall])
        else [])"
proof -
  define s1 where "s1 = s\<lparr>client := (client s)\<lparr>tokenMutex := WriteLocked\<rparr>\<rparr>"
  define F where "F = (case fst (Do p (tokenRequest (client s)
               (''grant_type=refresh_token&refresh_token=''
                  @ QueryEscape p (refreshTokenValue (client s)))) (oworld s)) of
        Inl err \<Rightarrow> True
      | Inr resp \<Rightarrow> StatusCode resp \<noteq> 200 \<or> isl (decodeToken p resp))"
  define C where "C = (case refreshToken p s1 of
                               (Returns (Some err), s2) \<Rightarrow> authenticate p s2
                             | (Returns None, s2) \<Rightarrow> (Returns None, s2)
                             | (Panics, s2) \<Rightarrow> (Panics, s2)
                             | (Deadlocks, s2) \<Rightarrow> (Deadlocks, s2))"
  define needs where "needs = (accessToken (client s) = []
      \<or> tokenExpiry (client s) - clock (oworld s) < 300000000000)"
  have f: "(\<exists>err. fst (refreshToken p s1) = Returns (Some err)) = F"
    unfolding refreshToken_fails_iff F_def by (simp add: s1_def)
  have t1: "tokenCalls s1 = tokenCalls s" by (simp add: s1_def)
  have r: "tokenCalls (snd C) = tokenCalls s @ (if F then [RefreshCall, AuthenticateCall] else [RefreshCall])"
    unfolding f[symmetric] C_def
    using refreshToken_keeps(1)[of p s1]
    by (auto simp add: authenticate_keeps t1 split: prod.splits outcome.splits option.splits)
  have n: "(clock (oworld s) > tokenExpiry (client s) + (- 5 * time_Minute)) =
      (tokenExpiry (client s) - clock (oworld s) < 300000000000)"
    by (auto simp add: time_Minute_def time_Second_def)
  have v: "(clock (oworld s) < tokenExpiry (client s) + (- 5 * time_Minute)) \<Longrightarrow>
      \<not> (tokenExpiry (client s) - clock (oworld s) < 300000000000)"
    by (auto simp add: time_Minute_def time_Second_def)
  have body: "ensureValidToken p s =
      (if \<not> (accessToken (client s) \<noteq> []
              \<and> clock (oworld s) < tokenExpiry (client s) + (- 5 * time_Minute))
       then deferUnlock
              (if needs then (if refreshTokenValue (client s) \<noteq> [] then C else authenticate p s1)
               else (Returns None, s1))
       else (Returns None, s))"
    using u unfolding C_def needs_def n[symmetric]
    by (simp add: ensureValidToken_def Let_def s1_def)
  have "tokenCalls (snd (ensureValidToken p s)) =
     tokenCalls s @
       (if needs
        then (if refreshTokenValue (client s) \<noteq> []
              then (if F then [RefreshCall, AuthenticateCall] else [RefreshCall])
              else [AuthenticateCall])
        else [])"
  proof (cases needs)
    case True
    then have "\<not> (accessToken (client s) \<noteq> []
              \<and> clock (oworld s) < tokenExpiry (client s) + (- 5 * time_Minute))"
      using v by (auto simp: needs_def)
    then show ?thesis
      unfolding body using True
      by (simp add: deferUnlock_keeps r authenticate_keeps t1)
  next
    case False
    then show ?thesis
      unfolding body by (simp add: deferUnlock_keeps t1)
  qed
  then show ?thesis unfolding needs_def F_def .
qed

lemma ensureValidToken_not_needed:
  assumes u: "tokenMutex (client s) = Unlocked"
    and "accessToken (client s) \<noteq> []" "300000000000 \<le> tokenExpiry (client s) - clock (oworld s)"
  shows "ensureValidToken p s = (Returns None, s)"
proof -
  have "s\<lparr>client := (client s)\<lparr>tokenMutex := Unlocked\<rparr>\<rparr> = s"
    using u by (cases s, cases "client s") auto
  then show ?thesis
    using assms
    by (auto simp add: ensureValidToken_def Let_def deferUnlock_def time_Minute_def time_Second_def)
qed

text \<open>
  With four minutes left on the token and no refresh token, a client that is refused by the
  token endpoint makes one \<open>authenticate\<close> call and no \<open>refreshToken\<close> call.
\<close>

theorem ensureValidToken_no_refresh_token_counterexample:
  "tokenExpiry (client (fourMinutesLeft [])) - clock (oworld (fourMinutesLeft [])) = 240000000000
   \<and> accessToken (client (fourMinutesLeft [])) = ''token-1''
   \<and> tokenCalls (fourMinutesLeft []) = []
   \<and> tokenCalls (snd (ensureValidToken
        (samplePlatform \<lparr>StatusCode = 401, BodyData = ''Unauthorized'', BodyErr = None\<rparr>)
        (fourMinutesLeft []))) = [AuthenticateCall]"
proof -
  have u: "tokenMutex (client (fourMinutesLeft [])) = Unlocked"
    by (simp add: fourMinutesLeft_def sampleOAuth_def)
  show ?thesis
    unfolding ensureValidToken_calls[OF u]
    by (simp add: fourMinutesLeft_def sampleOAuth_def)
qed

text \<open>
  C6. For a client whose token lock is free, \<open>ensureValidToken\<close> makes token calls if and
  only if the access token is absent or less than five minutes from its expiry. When it
  does and the client holds a refresh token, it makes exactly one \<open>refreshToken\<close> call,
  followed by one \<open>authenticate\<close> call exactly when the refresh failed (a transport error,
  a status other than 200, or a reply that does not decode); when it does and the client
  holds no refresh token, it makes one \<open>authenticate\<close> call and no \<open>refreshToken\<close> call.
  With a token five minutes or more from expiry it makes no call, returns nil and leaves
  the client as it was.
\<close>

theorem ensureValidToken_refresh_policy:
  assumes "tokenMutex (client s) = Unlocked"
  shows "tokenCalls (snd (ensureValidToken p s)) =
     tokenCalls s @
       (if accessToken (client s) = [] \<or> tokenExpiry (client s) - clock (oworld s) < 300000000000
        then (if refreshTokenValue (client s) \<noteq> []
              then (if (case fst (Do p (tokenRequest (client s)
                               (''grant_type=refresh_token&refresh_token=''
                                  @ QueryEscape p (refreshTokenValue (client s)))) (oworld s)) of
                          Inl err \<Rightarrow> True
                        | Inr resp \<Rightarrow> StatusCode resp \<noteq> 200 \<or> isl (decodeToken p resp))
                    then [RefreshCall, AuthenticateCall] else [RefreshCall])
              else [AuthenticateCall])
        else [])
    \<and> (accessToken (client s) \<noteq> [] \<and> 300000000000 \<le> tokenExpiry (client s) - clock (oworld s)
        \<longrightarrow> ensureValidToken p s = (Returns None, s))
    \<and> tokenCalls (snd (refreshToken p s')) = tokenCalls s' @ [RefreshCall]
    \<and> tokenCalls (snd (authenticate p s')) = tokenCalls s' @ [AuthenticateCall]"
  using ensureValidToken_calls[OF assms, of p] ensureValidToken_not_needed[OF assms, of p]
    refreshToken_keeps(1)[of p s'] authenticate_keeps(1)[of p s']
  by blast

theorem ensureValidToken_refresh_policy_witness:
  "tokenCalls (snd (ensureValidToken
        (samplePlatform \<lparr>StatusCode = 401, BodyData = ''Unauthorized'', BodyErr = None\<rparr>)
        (fourMinutesLeft ''refresh-1''))) = [RefreshCall, AuthenticateCall]
   \<and> tokenCalls (snd (ensureValidToken grantingPlatform (fourMinutesLeft ''refresh-1'')))
       = [RefreshCall]
   \<and> tokenExpiry (client sampleOAuth) - clock (oworld sampleOAuth) = 3600000000000
   \<and> ensureValidToken
        (samplePlatform \<lparr>StatusCode = 401, BodyData = ''Unauthorized'', BodyErr = None\<rparr>)
        sampleOAuth = (Returns None, sampleOAuth)
   \<and> tokenCalls sampleOAuth = []"
proof -
  let ?p = "samplePlatform \<lparr>StatusCode = 401, BodyData = ''Unauthorized'', BodyErr = None\<rparr>"
  have u: "tokenMutex (client (fourMinutesLeft ''refresh-1'')) = Unlocked"
    by (simp add: fourMinutesLeft_def sampleOAuth_def)
  have v: "tokenMutex (client sampleOAuth) = Unlocked"
    by (simp add: sampleOAuth_def)
  have 1: "tokenCalls (snd (ensureValidToken ?p (fourMinutesLeft ''refresh-1'')))
      = [RefreshCall, AuthenticateCall]"
    unfolding ensureValidToken_refresh_policy[OF u, of ?p sampleOAuth, THEN conjunct1]
    by (simp add: fourMinutesLeft_def sampleOAuth_def samplePlatform_def)
  have 2: "tokenCalls (snd (ensureValidToken grantingPlatform (fourMinutesLeft ''refresh-1'')))
      = [RefreshCall]"
    unfolding ensureValidToken_refresh_policy[OF u, of grantingPlatform sampleOAuth, THEN conjunct1]
    by (simp add: fourMinutesLeft_def sampleOAuth_def samplePlatform_def grantingPlatform_def)
  have 3: "tokenExpiry (client sampleOAuth) - clock (oworld sampleOAuth) = 3600000000000"
    by (simp add: sampleOAuth_def)
  have 4: "ensureValidToken ?p sampleOAuth = (Returns None, sampleOAuth)"
    using ensureValidToken_refresh_policy[OF v, of ?p sampleOAuth, THEN conjunct2, THEN conjunct1] 3
    by (simp add: sampleOAuth_def)
  have 5: "tokenCalls sampleOAuth = []" by (simp add: sampleOAuth_def)
  show ?thesis using 1 2 3 4 5 by blast
qed

text \<open>
  What the statement above leaves open is how the call ends after a renewal that
  succeeds. \<open>ensureValidToken\<close> holds the write lock of \<open>tokenMutex\<close> while it calls
  \<open>refreshToken\<close> or \<open>authenticate\<close>, and each of them takes the same lock to store the new
  token: the call blocks there.
\<close>

lemma ensureValidToken_renew:
  assumes "tokenMutex (client s) = Unlocked"
    and "accessToken (client s) = [] \<or> tokenExpiry (client s) - clock (oworld s) < 300000000000"
  shows "ensureValidToken p s =
     deferUnlock
       (if refreshTokenValue (client s) \<noteq> [] then
          (case refreshToken p (s\<lparr>client := (client s)\<lparr>tokenMutex := WriteLocked\<rparr>\<rparr>) of
             (Returns (Some err), s2) \<Rightarrow> authenticate p s2
           | (Returns None, s2) \<Rightarrow> (Returns None, s2)
           | (Panics, s2) \<Rightarrow> (Panics, s2)
           | (Deadlocks, s2) \<Rightarrow> (Deadlocks, s2))
        else authenticate p (s\<lparr>client := (client s)\<lparr>tokenMutex := WriteLocked\<rparr>\<rparr>))"
proof -
  have n: "(clock (oworld s) > tokenExpiry (client s) + (- 5 * time_Minute)) =
      (tokenExpiry (client s) - clock (oworld s) < 300000000000)"
    by (auto simp add: time_Minute_def time_Second_def)
  have v: "(clock (oworld s) < tokenExpiry (client s) + (- 5 * time_Minute)) \<Longrightarrow>
      \<not> (tokenExpiry (client s) - clock (oworld s) < 300000000000)"
    by (auto simp add: time_Minute_def time_Second_def)
  have nv: "\<not> (accessToken (client s) \<noteq> []
              \<and> clock (oworld s) < tokenExpiry (client s) + (- 5 * time_Minute))"
    using assms(2) v by auto
  have nd: "accessToken (client s) = []
      \<or> clock (oworld s) > tokenExpiry (client s) + (- 5 * time_Minute)"
    using assms(2) n by auto
  show ?thesis
    using assms(1) nv nd
    by (simp add: ensureValidToken_def Let_def)
qed

lemma ensureValidToken_blocks_after_refresh:
  assumes "tokenMutex (client s) = Unlocked"
    and "accessToken (client s) = [] \<or> tokenExpiry (client s) - clock (oworld s) < 300000000000"
    and "refreshTokenValue (client s) \<noteq> []"
    and "Do p (tokenRequest (client s)
               (''grant_type=refresh_token&refresh_token=''
                  @ QueryEscape p (refreshTokenValue (client s)))) (oworld s) = (Inr resp, w1)"
    and "StatusCode resp = 200" and "decodeToken p resp = Inr oauthResp"
  shows "fst (ensureValidToken p s) = Deadlocks"
proof -
  define s1 where "s1 = s\<lparr>client := (client s)\<lparr>tokenMutex := WriteLocked\<rparr>\<rparr>"
  have r: "fst (refreshToken p s1) = Deadlocks"
    using assms(4,5,6)
    by (simp add: refreshToken_def s1_def Let_def storeToken_def split: prod.splits)
  show ?thesis
    unfolding ensureValidToken_renew[OF assms(1,2)] s1_def[symmetric]
    using assms(3) r
    by (cases "refreshToken p s1") (simp add: deferUnlock_def)
qed

lemma ensureValidToken_blocks_after_authenticate:
  assumes "tokenMutex (client s) = Unlocked"
    and "accessToken (client s) = [] \<or> tokenExpiry (client s) - clock (oworld s) < 300000000000"
    and "refreshTokenValue (client s) = []"
    and "Do p (tokenRequest (client s)
               (''grant_type=password&password='' @ QueryEscape p (password (client s))
                   @ ''&username='' @ QueryEscape p (username (client s)))) (oworld s) = (Inr resp, w1)"
    and "StatusCode resp = 200" and "decodeToken p resp = Inr oauthResp"
  shows "fst (ensureValidToken p s) = Deadlocks"
proof -
  define s1 where "s1 = s\<lparr>client := (client s)\<lparr>tokenMutex := WriteLocked\<rparr>\<rparr>"
  have r: "fst (authenticate p s1) = Deadlocks"
    using assms(4,5,6)
    by (simp add: authenticate_def s1_def Let_def storeToken_def split: prod.splits)
  show ?thesis
    unfolding ensureValidToken_renew[OF assms(1,2)] s1_def[symmetric]
    using assms(3) r
    by (cases "authenticate p s1") (simp add: deferUnlock_def)
qed

subsection \<open>Responses of the two fetchers\<close>

lemma wait_keeps:
  "captchaCount (fst (wait r now)) = captchaCount r"
  "lastCaptchaTime (fst (wait r now)) = lastCaptchaTime r"
  "userAgentIndex (fst (wait r now)) = userAgentIndex r"
  "minInterval (fst (wait r now)) = minInterval r"
  by (simp_all add: wait_def Let_def)

lemma public_shape:
  assumes idx: "0 \<le> userAgentIndex rl" "userAgentIndex rl < 5"
    and reply: "\<forall>req w'. fst (Do p req w') = Inr resp"
  obtains rl2 w2 where "captchaCount rl2 = captchaCount rl"
    and "lastCaptchaTime rl2 = lastCaptchaTime rl"
    and "PublicJSONFetcher_Search p query limit matchTime (rl, w) =
      (if StatusCode resp \<noteq> 200 then
         (Returns (Inl (''reddit API error: status '' @ itoa (StatusCode resp)
                         @ '', body: '' @ BodyData resp)), (rl2, w2))
       else
         (case BodyErr resp of
            Some err \<Rightarrow> (Returns (Inl (''read response: '' @ err)), (rl2, w2))
          | None \<Rightarrow>
              if isCaptchaResponse (BodyData resp) then
                (Returns (Inl errBlocked), (recordCaptchaError rl2 (clock w2), w2))
              else
                (case decodeSearch p (BodyData resp) of
                   Inl err \<Rightarrow>
                     if Contains (BodyData resp) ''<html''
                        \<or> Contains (BodyData resp) ''<!DOCTYPE html''
                     then (Returns (Inl errHTML), (rl2, w2))
                     else (Returns (Inl (''parse response: '' @ err)), (rl2, w2))
                 | Inr results \<Rightarrow> (Returns (Inr (onlyMedia results)), (rl2, w2)))))"
proof -
  obtain rl1 now1 where w1: "wait rl (clock w) = (rl1, now1)" by (cases "wait rl (clock w)")
  have k: "captchaCount rl1 = captchaCount rl" "lastCaptchaTime rl1 = lastCaptchaTime rl"
      "userAgentIndex rl1 = userAgentIndex rl"
    using wait_keeps[of rl "clock w"] w1 by simp_all
  define rl2 where "rl2 = rl1\<lparr>userAgentIndex := (userAgentIndex rl1 + 1) smod int (length userAgents)\<rparr>"
  have g: "getNextUserAgent rl1 = Some (userAgents ! nat (userAgentIndex rl1), rl2)"
    using idx k by (simp add: getNextUserAgent_def rl2_def length_userAgents)
  define req where "req = publicRequest (publicSearchURL p query limit matchTime)
      (userAgents ! nat (userAgentIndex rl1))"
  obtain w2 where d: "Do p req (w\<lparr>clock := now1\<rparr>) = (Inr resp, w2)"
    using reply by (metis prod.collapse)
  show ?thesis
  proof (rule that[of rl2 w2])
    show "captchaCount rl2 = captchaCount rl" "lastCaptchaTime rl2 = lastCaptchaTime rl"
      using k by (simp_all add: rl2_def)
    show "PublicJSONFetcher_Search p query limit matchTime (rl, w) =
      (if StatusCode resp \<noteq> 200 then
         (Returns (Inl (''reddit API error: status '' @ itoa (StatusCode resp)
                         @ '', body: '' @ BodyData resp)), (rl2, w2))
       else
         (case BodyErr resp of
            Some err \<Rightarrow> (Returns (Inl (''read response: '' @ err)), (rl2, w2))
          | None \<Rightarrow>
              if isCaptchaResponse (BodyData resp) then
                (Returns (Inl errBlocked), (recordCaptchaError rl2 (clock w2), w2))
              else
                (case decodeSearch p (BodyData resp) of
                   Inl err \<Rightarrow>
                     if Contains (BodyData resp) ''<html''
                        \<or> Contains (BodyData resp) ''<!DOCTYPE html''
                     then (Returns (Inl errHTML), (rl2, w2))
                     else (Returns (Inl (''parse response: '' @ err)), (rl2, w2))
                 | Inr results \<Rightarrow> (Returns (Inr (onlyMedia results)), (rl2, w2)))))"
      using d[unfolded req_def]
      by (simp add: PublicJSONFetcher_Search_def w1 g Let_def split: option.splits sum.splits)
  qed
qed

lemma public_handling:
  assumes idx: "0 \<le> userAgentIndex rl" "userAgentIndex rl < 5"
    and reply: "\<forall>req w'. fst (Do p req w') = Inr resp"
  shows "(fst (PublicJSONFetcher_Search p query limit matchTime (rl, w)) = Returns (Inl errBlocked))
        = (StatusCode resp = 200 \<and> BodyErr resp = None \<and> isCaptchaResponse (BodyData resp))"
    and "captchaCount (fst (snd (PublicJSONFetcher_Search p query limit matchTime (rl, w)))) =
        captchaCount rl +
          (if StatusCode resp = 200 \<and> BodyErr resp = None \<and> isCaptchaResponse (BodyData resp)
           then 1 else 0)"
    and "lastCaptchaTime (fst (snd (PublicJSONFetcher_Search p query limit matchTime (rl, w)))) =
          (if StatusCode resp = 200 \<and> BodyErr resp = None \<and> isCaptchaResponse (BodyData resp)
           then clock (snd (snd (PublicJSONFetcher_Search p query limit matchTime (rl, w))))
           else lastCaptchaTime rl)"
    and "StatusCode resp \<noteq> 200 \<longrightarrow>
        fst (PublicJSONFetcher_Search p query limit matchTime (rl, w)) =
          Returns (Inl (''reddit API error: status '' @ itoa (StatusCode resp)
                         @ '', body: '' @ BodyData resp))"
    and "StatusCode resp = 200 \<and> BodyErr resp = None \<and> \<not> isCaptchaResponse (BodyData resp)
          \<and> decodeSearch p (BodyData resp) = Inr results \<longrightarrow>
        fst (PublicJSONFetcher_Search p query limit matchTime (rl, w)) =
          Returns (Inr (filter (\<lambda>result. Flair result = ''Media'') results))"
    and "\<forall>hits. fst (PublicJSONFetcher_Search p query limit matchTime (rl, w)) = Returns (Inr hits)
          \<longrightarrow> (\<forall>hit \<in> set hits. Flair hit = ''Media'')"
proof -
  obtain rl2 w2 where k: "captchaCount rl2 = captchaCount rl" "lastCaptchaTime rl2 = lastCaptchaTime rl"
    and e: "PublicJSONFetcher_Search p query limit matchTime (rl, w) =
      (if StatusCode resp \<noteq> 200 then
         (Returns (Inl (''reddit API error: status '' @ itoa (StatusCode resp)
                         @ '', body: '' @ BodyData resp)), (rl2, w2))
       else
         (case BodyErr resp of
            Some err \<Rightarrow> (Returns (Inl (''read response: '' @ err)), (rl2, w2))
          | None \<Rightarrow>
              if isCaptchaResponse (BodyData resp) then
                (Returns (Inl errBlocked), (recordCaptchaError rl2 (clock w2), w2))
              else
                (case decodeSearch p (BodyData resp) of
                   Inl err \<Rightarrow>
                     if Contains (BodyData resp) ''<html''
                        \<or> Contains (BodyData resp) ''<!DOCTYPE html''
                     then (Returns (Inl errHTML), (rl2, w2))
                     else (Returns (Inl (''parse response: '' @ err)), (rl2, w2))
                 | Inr results \<Rightarrow> (Returns (Inr (onlyMedia results)), (rl2, w2)))))"
    using public_shape[OF idx reply, of query limit matchTime w] by metis
  show "(fst (PublicJSONFetcher_Search p query limit matchTime (rl, w)) = Returns (Inl errBlocked))
        = (StatusCode resp = 200 \<and> BodyErr resp = None \<and> isCaptchaResponse (BodyData resp))"
    unfolding e by (simp add: errBlocked_def errHTML_def split: option.splits sum.splits)
  show "captchaCount (fst (snd (PublicJSONFetcher_Search p query limit matchTime (rl, w)))) =
        captchaCount rl +
          (if StatusCode resp = 200 \<and> BodyErr resp = None \<and> isCaptchaResponse (BodyData resp)
           then 1 else 0)"
    unfolding e by (simp add: k recordCaptchaError_def split: option.splits sum.splits)
  show "lastCaptchaTime (fst (snd (PublicJSONFetcher_Search p query limit matchTime (rl, w)))) =
          (if StatusCode resp = 200 \<and> BodyErr resp = None \<and> isCaptchaResponse (BodyData resp)
           then clock (snd (snd (PublicJSONFetcher_Search p query limit matchTime (rl, w))))
           else lastCaptchaTime rl)"
    unfolding e by (simp add: k recordCaptchaError_def split: option.splits sum.splits)
  show "StatusCode resp \<noteq> 200 \<longrightarrow>
        fst (PublicJSONFetcher_Search p query limit matchTime (rl, w)) =
          Returns (Inl (''reddit API error: status '' @ itoa (StatusCode resp)
                         @ '', body: '' @ BodyData resp))"
    unfolding e by simp
  show "StatusCode resp = 200 \<and> BodyErr resp = None \<and> \<not> isCaptchaResponse (BodyData resp)
          \<and> decodeSearch p (BodyData resp) = Inr results \<longrightarrow>
        fst (PublicJSONFetcher_Search p query limit matchTime (rl, w)) =
          Returns (Inr (filter (\<lambda>result. Flair result = ''Media'') results))"
    unfolding e by (simp add: onlyMedia_def)
  show "\<forall>hits. fst (PublicJSONFetcher_Search p query limit matchTime (rl, w)) = Returns (Inr hits)
          \<longrightarrow> (\<forall>hit \<in> set hits. Flair hit = ''Media'')"
    unfolding e by (auto simp add: onlyMedia_def split: option.splits sum.splits if_splits)
qed

lemma oauth_never_blocked:
  "fst (OAuthClient_Search p query limit matchTime s) \<noteq> Returns (Inl errBlocked)"
  by (auto simp add: OAuthClient_Search_def Let_def errBlocked_def
           split: prod.splits outcome.splits option.splits RWMutex.splits sum.splits if_splits)

lemma oauth_limiter_signal:
  "captchaCount (oauth_rateLimiter (client (snd (OAuthClient_Search p query limit matchTime s)))) =
     captchaCount (oauth_rateLimiter (client s))"
  "lastCaptchaTime (oauth_rateLimiter (client (snd (OAuthClient_Search p query limit matchTime s)))) =
     lastCaptchaTime (oauth_rateLimiter (client s))"
proof -
  obtain rl1 now1 where w: "wait (oauth_rateLimiter (client s)) (clock (oworld s)) = (rl1, now1)"
    by (cases "wait (oauth_rateLimiter (client s)) (clock (oworld s))")
  define s1 where "s1 = s\<lparr>client := (client s)\<lparr>oauth_rateLimiter := rl1\<rparr>,
                 oworld := (oworld s)\<lparr>clock := now1\<rparr>\<rparr>"
  obtain out s2 where e: "ensureValidToken p s1 = (out, s2)" by (cases "ensureValidToken p s1")
  have l: "oauth_rateLimiter (client s2) = rl1"
    using ensureValidToken_limiter[of p s1] e by (simp add: s1_def)
  have k: "captchaCount rl1 = captchaCount (oauth_rateLimiter (client s))"
      "lastCaptchaTime rl1 = lastCaptchaTime (oauth_rateLimiter (client s))"
    using wait_keeps[of "oauth_rateLimiter (client s)" "clock (oworld s)"] w by simp_all
  have "oauth_rateLimiter (client (snd (OAuthClient_Search p query limit matchTime s))) = rl1"
    using e l
    by (auto simp add: OAuthClient_Search_def w Let_def s1_def
             split: prod.splits outcome.splits option.splits RWMutex.splits sum.splits if_splits)
  then show
    "captchaCount (oauth_rateLimiter (client (snd (OAuthClient_Search p query limit matchTime s)))) =
       captchaCount (oauth_rateLimiter (client s))"
    "lastCaptchaTime (oauth_rateLimiter (client (snd (OAuthClient_Search p query limit matchTime s)))) =
       lastCaptchaTime (oauth_rateLimiter (client s))"
    using k by simp_all
qed

lemma oauth_media_only:
  "fst (OAuthClient_Search p query limit matchTime s) = Returns (Inr hits) \<Longrightarrow>
   \<forall>hit \<in> set hits. Flair hit = ''Media''"
  by (auto simp add: OAuthClient_Search_def Let_def onlyMedia_def
           split: prod.splits outcome.splits option.splits RWMutex.splits sum.splits if_splits)

lemma oauth_fresh:
  assumes u: "tokenMutex (client s) = Unlocked" and a: "accessToken (client s) \<noteq> []"
    and f: "snd (wait (oauth_rateLimiter (client s)) (clock (oworld s)))
              < tokenExpiry (client s) - 300000000000"
    and reply: "\<forall>req w'. fst (Do p req w') = Inr resp"
  shows "fst (OAuthClient_Search p query limit matchTime s) =
      (if StatusCode resp \<noteq> 200 then
         Returns (Inl (''OAuth search failed with status '' @ itoa (StatusCode resp) @ '': ''
                        @ BodyData resp))
       else
         (case BodyErr resp of
            Some err \<Rightarrow> Returns (Inl (''read response: '' @ err))
          | None \<Rightarrow>
              (case decodeSearch p (BodyData resp) of
                 Inl err \<Rightarrow> Returns (Inl (''parse search response: '' @ err))
               | Inr results \<Rightarrow> Returns (Inr (filter (\<lambda>result. Flair result = ''Media'') results)))))"
proof -
  obtain rl1 now1 where w: "wait (oauth_rateLimiter (client s)) (clock (oworld s)) = (rl1, now1)"
    by (cases "wait (oauth_rateLimiter (client s)) (clock (oworld s))")
  define s1 where "s1 = s\<lparr>client := (client s)\<lparr>oauth_rateLimiter := rl1\<rparr>,
                 oworld := (oworld s)\<lparr>clock := now1\<rparr>\<rparr>"
  have e: "ensureValidToken p s1 = (Returns None, s1)"
    using u a f w by (intro ensureValidToken_fresh) (simp_all add: s1_def)
  obtain w3 where d: "Do p (oauthRequest (client s1) (oauthSearchURL p query limit matchTime)) (oworld s1)
      = (Inr resp, w3)"
    using reply by (metis prod.collapse)
  have m: "tokenMutex (client s1) = Unlocked" using u by (simp add: s1_def)
  show ?thesis
    using e d m
    by (simp add: OAuthClient_Search_def w Let_def s1_def[symmetric] onlyMedia_def
          split: option.splits sum.splits)
qed

lemma challengePage_captcha: "isCaptchaResponse challengePage"
  by code_simp

lemma twoPosts_not_captcha: "\<not> isCaptchaResponse ''[two posts]''"
  by code_simp

lemma tooMany_captcha: "isCaptchaResponse ''Too Many Requests''"
  by code_simp

lemma itoa_429: "itoa 429 = ''429''" "itoa 401 = ''401''"
  by (simp_all add: itoa_def nat_digits.simps)

text \<open>
  A response with status 429 makes the public fetcher return the status error, not the
  blocked error, and leaves the abuse count of its limiter at 0. A 200 response whose body
  is a challenge page makes the OAuth fetcher return a parse error.
\<close>

theorem fetchers_status_error_counterexample:
  "fst (PublicJSONFetcher_Search
          (samplePlatform \<lparr>StatusCode = 429, BodyData = ''Too Many Requests'', BodyErr = None\<rparr>)
          (''Arsenal Chelsea 23'' @ [CHR 0x27]) 15 1700000000000000000
          (publicLimiter, \<lparr>clock = 1700000000000000000, net = ()\<rparr>))
     = Returns (Inl ''reddit API error: status 429, body: Too Many Requests'')
   \<and> captchaCount (fst (snd (PublicJSONFetcher_Search
          (samplePlatform \<lparr>StatusCode = 429, BodyData = ''Too Many Requests'', BodyErr = None\<rparr>)
          (''Arsenal Chelsea 23'' @ [CHR 0x27]) 15 1700000000000000000
          (publicLimiter, \<lparr>clock = 1700000000000000000, net = ()\<rparr>)))) = 0
   \<and> captchaCount publicLimiter = 0
   \<and> isCaptchaResponse challengePage
   \<and> fst (OAuthClient_Search
          (samplePlatform \<lparr>StatusCode = 200, BodyData = challengePage, BodyErr = None\<rparr>)
          (''Arsenal Chelsea 23'' @ [CHR 0x27]) 15 1700000000000000000 sampleOAuth)
     = Returns (Inl ''parse search response: invalid character'')"
proof -
  let ?p = "samplePlatform \<lparr>StatusCode = 429, BodyData = ''Too Many Requests'', BodyErr = None\<rparr>"
  have i: "0 \<le> userAgentIndex publicLimiter" "userAgentIndex publicLimiter < 5"
    by (simp_all add: publicLimiter_def)
  have r: "\<forall>req w'. fst (Do ?p req w') =
      Inr \<lparr>StatusCode = 429, BodyData = ''Too Many Requests'', BodyErr = None\<rparr>"
    by (simp add: samplePlatform_def)
  note h = public_handling[OF i r, where query = "''Arsenal Chelsea 23'' @ [CHR 0x27]"
      and limit = 15 and matchTime = 1700000000000000000
      and w = "\<lparr>clock = 1700000000000000000, net = ()\<rparr>"]
  have 1: "fst (PublicJSONFetcher_Search ?p
          (''Arsenal Chelsea 23'' @ [CHR 0x27]) 15 1700000000000000000
          (publicLimiter, \<lparr>clock = 1700000000000000000, net = ()\<rparr>))
     = Returns (Inl ''reddit API error: status 429, body: Too Many Requests'')"
    using h(4) by (simp add: itoa_429)
  have 2: "captchaCount (fst (snd (PublicJSONFetcher_Search ?p
          (''Arsenal Chelsea 23'' @ [CHR 0x27]) 15 1700000000000000000
          (publicLimiter, \<lparr>clock = 1700000000000000000, net = ()\<rparr>)))) = 0"
    using h(2) by (simp add: publicLimiter_def)
  have 3: "captchaCount publicLimiter = 0" by (simp add: publicLimiter_def)
  let ?q = "samplePlatform \<lparr>StatusCode = 200, BodyData = challengePage, BodyErr = None\<rparr>"
  have u: "tokenMutex (client sampleOAuth) = Unlocked" "accessToken (client sampleOAuth) \<noteq> []"
    by (simp_all add: sampleOAuth_def)
  have f: "snd (wait (oauth_rateLimiter (client sampleOAuth)) (clock (oworld sampleOAuth)))
              < tokenExpiry (client sampleOAuth) - 300000000000"
    by (simp add: sampleOAuth_def wait_def currentInterval_def time_Since_def maxDuration_def
          minDuration_def Let_def)
  have r': "\<forall>req w'. fst (Do ?q req w') =
      Inr \<lparr>StatusCode = 200, BodyData = challengePage, BodyErr = None\<rparr>"
    by (simp add: samplePlatform_def)
  have 4: "fst (OAuthClient_Search ?q
          (''Arsenal Chelsea 23'' @ [CHR 0x27]) 15 1700000000000000000 sampleOAuth)
     = Returns (Inl ''parse search response: invalid character'')"
    unfolding oauth_fresh[OF u f r']
    by (simp add: samplePlatform_def challengePage_def)
  show ?thesis using 1 2 3 4 challengePage_captcha by blast
qed

text \<open>
  C8. When the transport answers with a response: the public fetcher returns the blocked
  error \<open>reddit is blocking requests (CAPTCHA/bot detection)\<close> exactly when the status is
  200, the body is read and the detector classifies it as a challenge page, and exactly
  then it records an abuse signal on its rate limiter (the count goes up by one and the
  time of the signal is the clock); on a status other than 200 it returns the status
  error and records nothing. The OAuth fetcher runs no detector: it never returns the
  blocked error and never records an abuse signal, and with a valid token it returns the
  status error on a status other than 200. On success both fetchers return the decoded
  hits whose flair is \<open>Media\<close>, and only those.
\<close>

theorem fetchers_response_handling:
  assumes "0 \<le> userAgentIndex rl" and "userAgentIndex rl < 5"
    and "\<forall>req w'. fst (Do p req w') = Inr resp"
  shows "((fst (PublicJSONFetcher_Search p query limit matchTime (rl, w)) = Returns (Inl errBlocked))
          = (StatusCode resp = 200 \<and> BodyErr resp = None \<and> isCaptchaResponse (BodyData resp)))
    \<and> errBlocked = ''reddit is blocking requests (CAPTCHA/bot detection)''
    \<and> captchaCount (fst (snd (PublicJSONFetcher_Search p query limit matchTime (rl, w)))) =
        captchaCount rl +
          (if StatusCode resp = 200 \<and> BodyErr resp = None \<and> isCaptchaResponse (BodyData resp)
           then 1 else 0)
    \<and> lastCaptchaTime (fst (snd (PublicJSONFetcher_Search p query limit matchTime (rl, w)))) =
          (if StatusCode resp = 200 \<and> BodyErr resp = None \<and> isCaptchaResponse (BodyData resp)
           then clock (snd (snd (PublicJSONFetcher_Search p query limit matchTime (rl, w))))
           else lastCaptchaTime rl)
    \<and> (StatusCode resp \<noteq> 200 \<longrightarrow>
        fst (PublicJSONFetcher_Search p query limit matchTime (rl, w)) =
          Returns (Inl (''reddit API error: status '' @ itoa (StatusCode resp)
                         @ '', body: '' @ BodyData resp)))
    \<and> (StatusCode resp = 200 \<and> BodyErr resp = None \<and> \<not> isCaptchaResponse (BodyData resp)
          \<and> decodeSearch p (BodyData resp) = Inr results \<longrightarrow>
        fst (PublicJSONFetcher_Search p query limit matchTime (rl, w)) =
          Returns (Inr (filter (\<lambda>result. Flair result = ''Media'') results)))
    \<and> (\<forall>hits. fst (PublicJSONFetcher_Search p query limit matchTime (rl, w)) = Returns (Inr hits)
          \<longrightarrow> (\<forall>hit \<in> set hits. Flair hit = ''Media''))
    \<and> fst (OAuthClient_Search p query limit matchTime s) \<noteq> Returns (Inl errBlocked)
    \<and> captchaCount (oauth_rateLimiter (client (snd (OAuthClient_Search p query limit matchTime s))))
        = captchaCount (oauth_rateLimiter (client s))
    \<and> lastCaptchaTime (oauth_rateLimiter (client (snd (OAuthClient_Search p query limit matchTime s))))
        = lastCaptchaTime (oauth_rateLimiter (client s))
    \<and> (tokenMutex (client s) = Unlocked \<and> accessToken (client s) \<noteq> []
        \<and> snd (wait (oauth_rateLimiter (client s)) (clock (oworld s)))
              < tokenExpiry (client s) - 300000000000 \<longrightarrow>
        fst (OAuthClient_Search p query limit matchTime s) =
          (if StatusCode resp \<noteq> 200 then
             Returns (Inl (''OAuth search failed with status '' @ itoa (StatusCode resp) @ '': ''
                            @ BodyData resp))
           else
             (case BodyErr resp of
                Some err \<Rightarrow> Returns (Inl (''read response: '' @ err))
              | None \<Rightarrow>
                  (case decodeSearch p (BodyData resp) of
                     Inl err \<Rightarrow> Returns (Inl (''parse search response: '' @ err))
                   | Inr results \<Rightarrow>
                       Returns (Inr (filter (\<lambda>result. Flair result = ''Media'') results))))))
    \<and> (\<forall>hits. fst (OAuthClient_Search p query limit matchTime s) = Returns (Inr hits)
          \<longrightarrow> (\<forall>hit \<in> set hits. Flair hit = ''Media''))"
proof -
  note h = public_handling[OF assms, where query = query and limit = limit
      and matchTime = matchTime and w = w]
  have e: "errBlocked = ''reddit is blocking requests (CAPTCHA/bot detection)''"
    by (simp add: errBlocked_def)
  have o: "tokenMutex (client s) = Unlocked \<and> accessToken (client s) \<noteq> []
        \<and> snd (wait (oauth_rateLimiter (client s)) (clock (oworld s)))
              < tokenExpiry (client s) - 300000000000 \<longrightarrow>
        fst (OAuthClient_Search p query limit matchTime s) =
          (if StatusCode resp \<noteq> 200 then
             Returns (Inl (''OAuth search failed with status '' @ itoa (StatusCode resp) @ '': ''
                            @ BodyData resp))
           else
             (case BodyErr resp of
                Some err \<Rightarrow> Returns (Inl (''read response: '' @ err))
              | None \<Rightarrow>
                  (case decodeSearch p (BodyData resp) of
                     Inl err \<Rightarrow> Returns (Inl (''parse search response: '' @ err))
                   | Inr results \<Rightarrow>
                       Returns (Inr (filter (\<lambda>result. Flair result = ''Media'') results)))))"
    using oauth_fresh[OF _ _ _ assms(3), of s query limit matchTime] by blast
  have m: "\<forall>hits. fst (OAuthClient_Search p query limit matchTime s) = Returns (Inr hits)
          \<longrightarrow> (\<forall>hit \<in> set hits. Flair hit = ''Media'')"
    using oauth_media_only by blast
  show ?thesis
    by (intro conjI) (fact h e o m oauth_never_blocked oauth_limiter_signal)+
qed

theorem fetchers_response_handling_witness:
  "PublicJSONFetcher_Search
      (samplePlatform \<lparr>StatusCode = 200, BodyData = challengePage, BodyErr = None\<rparr>)
      (''Arsenal Chelsea 23'' @ [CHR 0x27]) 15 1700000000000000000
      (publicLimiter, \<lparr>clock = 1700000000000000000, net = ()\<rparr>)
     = (Returns (Inl ''reddit is blocking requests (CAPTCHA/bot detection)''),
        (\<lparr>lastRequest = 1700000000000000000, minInterval = 12000000000, captchaCount = 1,
          lastCaptchaTime = 1700000000000000000, userAgentIndex = 1\<rparr>,
         \<lparr>clock = 1700000000000000000, net = ()\<rparr>))
   \<and> fst (PublicJSONFetcher_Search
      (samplePlatform \<lparr>StatusCode = 200, BodyData = ''[two posts]'', BodyErr = None\<rparr>)
      (''Arsenal Chelsea 23'' @ [CHR 0x27]) 15 1700000000000000000
      (publicLimiter, \<lparr>clock = 1700000000000000000, net = ()\<rparr>))
     = Returns (Inr [\<lparr>URL = ''https://streamff.com/v/abc'', Title = ''Arsenal 1-0 Chelsea - 23 GOAL'',
                      PostURL = ''https://reddit.com/r/soccer/comments/1'', Flair = ''Media''\<rparr>])
   \<and> fst (OAuthClient_Search
      (samplePlatform \<lparr>StatusCode = 200, BodyData = ''[two posts]'', BodyErr = None\<rparr>)
      (''Arsenal Chelsea 23'' @ [CHR 0x27]) 15 1700000000000000000 sampleOAuth)
     = Returns (Inr [\<lparr>URL = ''https://streamff.com/v/abc'', Title = ''Arsenal 1-0 Chelsea - 23 GOAL'',
                      PostURL = ''https://reddit.com/r/soccer/comments/1'', Flair = ''Media''\<rparr>])"
proof -
  let ?c = "samplePlatform \<lparr>StatusCode = 200, BodyData = challengePage, BodyErr = None\<rparr>"
  let ?t = "samplePlatform \<lparr>StatusCode = 200, BodyData = ''[two posts]'', BodyErr = None\<rparr>"
  let ?q = "''Arsenal Chelsea 23'' @ [CHR 0x27]"
  let ?w = "\<lparr>clock = 1700000000000000000, net = ()\<rparr> :: unit world"
  have i: "0 \<le> userAgentIndex publicLimiter" "userAgentIndex publicLimiter < 5"
    by (simp_all add: publicLimiter_def)
  have rc: "\<forall>req w'. fst (Do ?c req w') =
      Inr \<lparr>StatusCode = 200, BodyData = challengePage, BodyErr = None\<rparr>"
    by (simp add: samplePlatform_def)
  have rt: "\<forall>req w'. fst (Do ?t req w') =
      Inr \<lparr>StatusCode = 200, BodyData = ''[two posts]'', BodyErr = None\<rparr>"
    by (simp add: samplePlatform_def)
  note c = fetchers_response_handling[OF i rc, where query = ?q and limit = 15
      and matchTime = 1700000000000000000 and w = ?w and s = sampleOAuth
      and results = "[exampleHit, otherHit]"]
  note t = fetchers_response_handling[OF i rt, where query = ?q and limit = 15
      and matchTime = 1700000000000000000 and w = ?w and s = sampleOAuth
      and results = "[exampleHit, otherHit]"]
  have c1: "fst (PublicJSONFetcher_Search ?c ?q 15 1700000000000000000 (publicLimiter, ?w))
      = Returns (Inl ''reddit is blocking requests (CAPTCHA/bot detection)'')"
    using c[THEN conjunct1] c[THEN conjunct2, THEN conjunct1] challengePage_captcha by simp
  have c2: "snd (PublicJSONFetcher_Search ?c ?q 15 1700000000000000000 (publicLimiter, ?w))
      = (\<lparr>lastRequest = 1700000000000000000, minInterval = 12000000000, captchaCount = 1,
          lastCaptchaTime = 1700000000000000000, userAgentIndex = 1\<rparr>, ?w)"
    using challengePage_captcha
    by (simp add: PublicJSONFetcher_Search_def publicLimiter_def wait_def currentInterval_def
          time_Since_def maxDuration_def minDuration_def zeroTime_def time_Second_def
          time_Minute_def getNextUserAgent_def length_userAgents signed_modulo_int_def
          samplePlatform_def recordCaptchaError_def Let_def)
  have u: "tokenMutex (client sampleOAuth) = Unlocked \<and> accessToken (client sampleOAuth) \<noteq> []
      \<and> snd (wait (oauth_rateLimiter (client sampleOAuth)) (clock (oworld sampleOAuth)))
              < tokenExpiry (client sampleOAuth) - 300000000000"
    by (simp add: sampleOAuth_def wait_def currentInterval_def time_Since_def maxDuration_def
          minDuration_def Let_def)
  have d: "decodeSearch ?t ''[two posts]'' = Inr [exampleHit, otherHit]"
    by (simp add: samplePlatform_def)
  have fl: "filter (\<lambda>result. Flair result = ''Media'') [exampleHit, otherHit] =
      [\<lparr>URL = ''https://streamff.com/v/abc'', Title = ''Arsenal 1-0 Chelsea - 23 GOAL'',
        PostURL = ''https://reddit.com/r/soccer/comments/1'', Flair = ''Media''\<rparr>]"
    by (simp add: exampleHit_def otherHit_def)
  have t1: "fst (PublicJSONFetcher_Search ?t ?q 15 1700000000000000000 (publicLimiter, ?w))
      = Returns (Inr [\<lparr>URL = ''https://streamff.com/v/abc'', Title = ''Arsenal 1-0 Chelsea - 23 GOAL'',
                      PostURL = ''https://reddit.com/r/soccer/comments/1'', Flair = ''Media''\<rparr>])"
    using t[THEN conjunct2, THEN conjunct2, THEN conjunct2, THEN conjunct2, THEN conjunct2,
            THEN conjunct1] twoPosts_not_captcha d
    by (simp add: exampleHit_def otherHit_def)
  have t2: "fst (OAuthClient_Search ?t ?q 15 1700000000000000000 sampleOAuth)
      = Returns (Inr [\<lparr>URL = ''https://streamff.com/v/abc'', Title = ''Arsenal 1-0 Chelsea - 23 GOAL'',
                      PostURL = ''https://reddit.com/r/soccer/comments/1'', Flair = ''Media''\<rparr>])"
    using t[THEN conjunct2, THEN conjunct2, THEN conjunct2, THEN conjunct2, THEN conjunct2,
            THEN conjunct2, THEN conjunct2, THEN conjunct2, THEN conjunct2, THEN conjunct2,
            THEN conjunct1] u d
    by (simp add: exampleHit_def otherHit_def)
  show ?thesis using c1 c2 t1 t2 by (metis prod.collapse)
qed

end
